(* ===== verification/Prelude.thy ===== *)
theory Prelude
  imports Complex_Main "HOL-Library.Multiset" "HOL-Library.Sublist"
begin

text \<open>
  Shared vocabulary of the development: the named collections the component
  theories fill, and the generic facts about lists, keyed sorting and
  partitions that the directional sorters and the renderer rely on.  Nothing
  here is specific to the cities program.
\<close>

named_theorems model_defs
  \<open>definitions of the model unfolded when a concrete catalog is evaluated\<close>

named_theorems route_simps
  \<open>facts about the position of a city along a flight route\<close>

subsection \<open>Splitting a sorted list at a threshold\<close>

text \<open>
  A list sorted by a key is the concatenation of its elements whose key is at
  most a threshold and those whose key is above it: a stable partition of a
  sorted list cuts it in two.
\<close>

lemma sorted_filter_le_append_gt:
  fixes k :: "'a \<Rightarrow> 'b::linorder"
  assumes "sorted (map k xs)"
  shows "filter (\<lambda>x. k x \<le> t) xs @ filter (\<lambda>x. \<not> k x \<le> t) xs = xs"
  using assms
proof (induction xs)
  case Nil
  then show ?case by simp
next
  case (Cons x xs)
  then have IH: "filter (\<lambda>x. k x \<le> t) xs @ filter (\<lambda>x. \<not> k x \<le> t) xs = xs"
    and ge: "\<forall>y\<in>set xs. k x \<le> k y" by auto
  show ?case
  proof (cases "k x \<le> t")
    case True
    with IH show ?thesis by simp
  next
    case False
    with ge have "filter (\<lambda>x. k x \<le> t) xs = []"
      by (auto simp: filter_empty_conv dest: order_trans)
    with False IH show ?thesis by simp
  qed
qed

lemma sorted_filter_map:
  "sorted (map k xs) \<Longrightarrow> sorted (map k (filter P xs))"
  by (induction xs) auto

lemma sorted_map_append_iff:
  "sorted (map k (xs @ ys)) \<longleftrightarrow>
     sorted (map k xs) \<and> sorted (map k ys) \<and> (\<forall>x\<in>set xs. \<forall>y\<in>set ys. k x \<le> k y)"
  by (auto simp: sorted_append)

subsection \<open>The last element of a filtered, sorted list\<close>

text \<open>
  In a list sorted by a key, an element whose key is strictly larger than the
  key of every other element is the last one.
\<close>

lemma sorted_unique_max_last:
  fixes k :: "'a \<Rightarrow> 'b::linorder"
  assumes "sorted (map k xs)" and "c \<in> set xs"
    and "\<forall>y\<in>set xs. y \<noteq> c \<longrightarrow> k y < k c"
  shows "last xs = c"
  using assms
proof (induction xs)
  case Nil
  then show ?case by simp
next
  case (Cons x xs)
  show ?case
  proof (cases "xs = []")
    case True
    with Cons.prems show ?thesis by simp
  next
    case False
    have "c \<in> set xs"
    proof (rule ccontr)
      assume "c \<notin> set xs"
      with Cons.prems(2) have "c = x" by simp
      moreover from False obtain y where "y \<in> set xs" by fastforce
      ultimately show False
        using Cons.prems(1,3) \<open>c \<notin> set xs\<close> by fastforce
    qed
    with Cons False show ?thesis by simp
  qed
qed

subsection \<open>Prefixes of sorted lists\<close>

lemma sorted_take_prefix: "sorted xs \<Longrightarrow> sorted (take n xs)"
  by (metis append_take_drop_id sorted_append)

lemma prefix_filter_take: "Sublist.prefix (filter P (take n xs)) (filter P xs)"
proof -
  have "filter P xs = filter P (take n xs) @ filter P (drop n xs)"
    by (simp flip: filter_append)
  then show ?thesis by (metis Sublist.prefixI)
qed

subsection \<open>Transferring sortedness along a monotone map\<close>

lemma sorted_map_mono_on:
  assumes "sorted (map k xs)"
    and "\<forall>x\<in>set xs. \<forall>y\<in>set xs. k x \<le> k y \<longrightarrow> g x \<le> g y"
  shows "sorted (map g xs)"
  using assms by (induction xs) auto

subsection \<open>Sorted concatenations of blocks\<close>

text \<open>
  A list made of blocks separated by two markers is sorted when each block is
  sorted and the blocks lie between the markers' values.
\<close>

lemma sorted_blocks_markers:
  fixes g :: "'a \<Rightarrow> 'b::linorder"
  assumes "sorted (map g A)" and "sorted (map g B)" and "sorted (map g C)"
    and "\<forall>x\<in>set A. g x \<le> u" and "g a = u"
    and "\<forall>x\<in>set B. u \<le> g x \<and> g x \<le> v" and "g b = v" and "u \<le> v"
    and "\<forall>x\<in>set C. v \<le> g x"
  shows "sorted (map g (A @ [a] @ B @ [b] @ C))"
proof -
  have "sorted (map g ([b] @ C))"
    using assms(3,7,9) by simp
  then have "sorted (map g (B @ [b] @ C))"
    using assms(2,6,7,8,9) by (auto simp: sorted_append intro: order_trans)
  then have "sorted (map g ([a] @ B @ [b] @ C))"
    using assms(5,6,7,8,9) by (auto simp: sorted_append intro: order_trans)
  then show ?thesis
    using assms(1,4,5,6,7,8,9) by (auto simp: sorted_append intro: order_trans)
qed

lemma mset_filter_partition: "mset (filter P xs) + mset (filter (Not \<circ> P) xs) = mset xs"
  by (induction xs) auto

subsection \<open>Dropping a prefix\<close>

lemma dropWhile_prefix:
  assumes "\<forall>c\<in>set w. P c" and "xs = [] \<or> \<not> P (hd xs)"
  shows "dropWhile P (w @ xs) = xs"
  using assms
proof (induction w)
  case Nil
  then show ?case by (cases xs) auto
next
  case (Cons c w)
  then show ?case by simp
qed

end
