(* ===== verification/Float64.thy ===== *)
theory Float64
  imports Prelude
begin

text \<open>
  The \<open>f64\<close> values of \<open>src/src/src/lib.rs\<close>.  Every coordinate and population
  of a \<open>City\<close> is an IEEE double.  The model keeps the one behaviour of doubles
  that the program's control flow depends on, the unordered value NaN: the
  comparison operators are false on it and \<open>partial_cmp\<close> returns \<open>None\<close>,
  which the sorts of the program turn into a panic with \<open>unwrap()\<close>.  Finite
  values are exact reals: rounding and the infinities are not modelled (the
  header of \<open>Spec2Isabelle\<close> says why).  The theory also holds Rust's
  \<open>Ordering\<close> and the \<open>Display\<close> of integral doubles used by the renderer.
\<close>

subsection \<open>Doubles, orderings and comparisons\<close>

datatype ordering = Less | Equal | Greater

datatype f64 = Num real | NaN

definition cmp_real :: "real \<Rightarrow> real \<Rightarrow> ordering" where
  "cmp_real x y = (if x < y then Less else if x = y then Equal else Greater)"

text \<open>\<open>f64::partial_cmp\<close>: \<open>None\<close> as soon as one operand is NaN.\<close>

fun partial_cmp :: "f64 \<Rightarrow> f64 \<Rightarrow> ordering option" where
  "partial_cmp (Num x) (Num y) = Some (cmp_real x y)"
| "partial_cmp _ _ = None"

text \<open>The operators \<open><\<close> and \<open><=\<close> on \<open>f64\<close>: false when either side is NaN.\<close>

fun f64_lt :: "f64 \<Rightarrow> f64 \<Rightarrow> bool" where
  "f64_lt (Num x) (Num y) = (x < y)"
| "f64_lt _ _ = False"

fun f64_le :: "f64 \<Rightarrow> f64 \<Rightarrow> bool" where
  "f64_le (Num x) (Num y) = (x \<le> y)"
| "f64_le _ _ = False"

fun is_nan :: "f64 \<Rightarrow> bool" where
  "is_nan NaN = True"
| "is_nan (Num _) = False"

text \<open>The real value of a finite double (NaN has none; 0 is a placeholder).\<close>

fun f64_val :: "f64 \<Rightarrow> real" where
  "f64_val (Num x) = x"
| "f64_val NaN = 0"

subsection \<open>Arithmetic\<close>

text \<open>
  \<open>+\<close>, \<open>-\<close>, \<open>*\<close>, \<open>abs()\<close> and \<open>floor()\<close> propagate NaN.  Rust's \<open>%\<close> on
  doubles is the truncated remainder (\<open>fmod\<close>): its sign is the dividend's and
  it is NaN for a zero divisor.
\<close>

fun f64_add :: "f64 \<Rightarrow> f64 \<Rightarrow> f64" where
  "f64_add (Num x) (Num y) = Num (x + y)"
| "f64_add _ _ = NaN"

fun f64_sub :: "f64 \<Rightarrow> f64 \<Rightarrow> f64" where
  "f64_sub (Num x) (Num y) = Num (x - y)"
| "f64_sub _ _ = NaN"

fun f64_mul :: "f64 \<Rightarrow> f64 \<Rightarrow> f64" where
  "f64_mul (Num x) (Num y) = Num (x * y)"
| "f64_mul _ _ = NaN"

fun f64_abs :: "f64 \<Rightarrow> f64" where
  "f64_abs (Num x) = Num \<bar>x\<bar>"
| "f64_abs NaN = NaN"

fun f64_floor :: "f64 \<Rightarrow> f64" where
  "f64_floor (Num x) = Num (of_int \<lfloor>x\<rfloor>)"
| "f64_floor NaN = NaN"

definition trunc_real :: "real \<Rightarrow> int" where
  "trunc_real x = (if 0 \<le> x then \<lfloor>x\<rfloor> else \<lceil>x\<rceil>)"

fun f64_rem :: "f64 \<Rightarrow> f64 \<Rightarrow> f64" where
  "f64_rem (Num x) (Num y) =
     (if y = 0 then NaN else Num (x - of_int (trunc_real (x / y)) * y))"
| "f64_rem _ _ = NaN"

subsection \<open>Display of integral doubles\<close>

text \<open>
  \<open>format!("{}", d)\<close> of a double \<open>d\<close> with an integral value prints its
  decimal digits and no fraction (\<open>40.0\<close> prints as \<open>40\<close>); NaN prints as
  \<open>NaN\<close>.  The renderer only displays results of \<open>floor()\<close>, which are
  integral, so \<open>display_whole\<close> is Rust's \<open>Display\<close> on every value it is
  applied to.
\<close>

fun string_of_nat :: "nat \<Rightarrow> string" where
  "string_of_nat n =
     (if n < 10 then [char_of (48 + n)]
      else string_of_nat (n div 10) @ [char_of (48 + n mod 10)])"

definition string_of_int :: "int \<Rightarrow> string" where
  "string_of_int i =
     (if i < 0 then CHR ''-'' # string_of_nat (nat (- i)) else string_of_nat (nat i))"

fun display_whole :: "f64 \<Rightarrow> string" where
  "display_whole (Num x) = string_of_int \<lfloor>x\<rfloor>"
| "display_whole NaN = ''NaN''"

subsection \<open>Facts about comparisons\<close>

lemma partial_cmp_None_iff [simp]:
  "partial_cmp a b = None \<longleftrightarrow> is_nan a \<or> is_nan b"
  by (cases a; cases b) auto

lemma cmp_real_Greater_iff [simp]: "cmp_real x y = Greater \<longleftrightarrow> y < x"
  by (auto simp: cmp_real_def)

lemma not_nan_Num: "\<not> is_nan a \<Longrightarrow> a = Num (f64_val a)"
  by (cases a) auto

lemma f64_lt_val:
  "\<not> is_nan a \<Longrightarrow> \<not> is_nan b \<Longrightarrow> f64_lt a b \<longleftrightarrow> f64_val a < f64_val b"
  by (cases a; cases b) auto

lemma f64_le_val:
  "\<not> is_nan a \<Longrightarrow> \<not> is_nan b \<Longrightarrow> f64_le a b \<longleftrightarrow> f64_val a \<le> f64_val b"
  by (cases a; cases b) auto

lemma f64_lt_nan [simp]: "f64_lt NaN b = False" "f64_lt a NaN = False"
  by (cases b; simp) (cases a; simp)

lemma f64_le_nan [simp]: "f64_le NaN b = False" "f64_le a NaN = False"
  by (cases b; simp) (cases a; simp)

lemma f64_le_refl_iff [simp]: "f64_le a a \<longleftrightarrow> \<not> is_nan a"
  by (cases a) auto

lemma f64_le_not_lt:
  "\<not> is_nan a \<Longrightarrow> \<not> is_nan b \<Longrightarrow> \<not> f64_le a b \<longleftrightarrow> f64_lt b a"
  by (cases a; cases b) auto

subsection \<open>Facts about the remainder\<close>

text \<open>On a non-negative dividend and a positive divisor, \<open>%\<close> is the floor remainder.\<close>

lemma f64_rem_nonneg:
  assumes "0 \<le> x" and "0 < y"
  shows "f64_rem (Num x) (Num y) = Num (x - of_int \<lfloor>x / y\<rfloor> * y)"
  using assms by (simp add: trunc_real_def)

lemma floor_rem_bounds:
  fixes x y :: real
  assumes "0 < y"
  shows "0 \<le> x - of_int \<lfloor>x / y\<rfloor> * y" and "x - of_int \<lfloor>x / y\<rfloor> * y < y"
proof -
  have lo: "of_int \<lfloor>x / y\<rfloor> \<le> x / y" and hi: "x / y < of_int \<lfloor>x / y\<rfloor> + 1"
    by linarith+
  from lo have "of_int \<lfloor>x / y\<rfloor> * y \<le> x"
    by (simp only: pos_le_divide_eq [OF assms])
  then show "0 \<le> x - of_int \<lfloor>x / y\<rfloor> * y" by simp
  from hi have "x < (of_int \<lfloor>x / y\<rfloor> + 1) * y"
    by (simp only: pos_divide_less_eq [OF assms])
  then show "x - of_int \<lfloor>x / y\<rfloor> * y < y" by (simp add: algebra_simps)
qed

subsection \<open>Digits\<close>

declare string_of_nat.simps [simp del]

lemma string_of_nat_nonempty: "string_of_nat n \<noteq> []"
  by (simp add: string_of_nat.simps [of n])

lemma string_of_nat_digit: "n < 10 \<Longrightarrow> string_of_nat n = [char_of (48 + n)]"
  by (simp add: string_of_nat.simps [of n])

lemma string_of_nat_step:
  "10 \<le> n \<Longrightarrow> string_of_nat n = string_of_nat (n div 10) @ [char_of (48 + n mod 10)]"
  by (simp add: string_of_nat.simps [of n])

text \<open>Evaluating the digit characters of a concrete number.\<close>

lemmas char_of_eval = char_of_def bit_0

end
