(* ===== verification/Catalog.thy ===== *)
theory Catalog
  imports Float64
begin

text \<open>
  The city data: the \<open>City\<close> struct and the two pole sentinels of
  \<open>src/src/src/lib.rs\<close>, and the CSV loader of \<open>src/src/data_loader.rs\<close>
  (\<open>Record\<close>, \<open>From<Record> for City\<close>, \<open>load_data\<close>).  The file system and
  the \<open>csv\<close> crate are outside the model: the loader receives either the error
  of \<open>File::open\<close> or the sequence of results that \<open>deserialize::<Record>()\<close>
  yields, one per row.  What the loader prints is kept as a list of messages.
\<close>

subsection \<open>Cities\<close>

record city =
  name :: string
  latitude :: f64
  longitude :: f64
  population :: f64
  country :: string
  province :: string

type_synonym catalog = "city list"

definition NORTH_POLE :: city where
  "NORTH_POLE =
     \<lparr>name = ''North Pole'', latitude = Num 90, longitude = Num 0, population = Num 0,
      country = ''North Pole'', province = ''North Pole''\<rparr>"

definition SOUTH_POLE :: city where
  "SOUTH_POLE =
     \<lparr>name = ''South Pole'', latitude = Num (-90), longitude = Num 0, population = Num 0,
      country = ''Antarctica'', province = ''South Pole''\<rparr>"

text \<open>\<open>impl Display for City\<close>: a city prints as its name.\<close>

definition display_city :: "city \<Rightarrow> string" where
  "display_city c = name c"

subsection \<open>CSV rows\<close>

text \<open>
  \<open>struct Record\<close>: the nine columns of a row.  The field names carry a
  \<open>rec_\<close> prefix because \<open>city\<close>'s field names are taken.
\<close>

record csv_record =
  rec_city :: string
  rec_city_ascii :: string
  rec_latitude :: f64
  rec_longitude :: f64
  rec_population :: f64
  rec_country :: string
  rec_iso2 :: string
  rec_iso3 :: string
  rec_province :: string

definition city_of_record :: "csv_record \<Rightarrow> city" where
  "city_of_record r =
     \<lparr>name = rec_city r, latitude = rec_latitude r, longitude = rec_longitude r,
      population = rec_population r, country = rec_country r, province = rec_province r\<rparr>"

text \<open>
  A row is what the CSV reader yields for it: \<open>Inl\<close> the deserialisation
  error, \<open>Inr\<close> the record.  A file is \<open>Inl\<close> the error of \<open>File::open\<close>,
  or \<open>Inr\<close> its rows.
\<close>

type_synonym csv_row = "string + csv_record"
type_synonym csv_file = "string + csv_row list"

datatype load_msg =
    Reading
  | Processed nat
  | RowError nat string
  | Loaded nat

datatype load_error = OpenFailed string | NoValidData

subsection \<open>The loading loop\<close>

text \<open>
  The \<open>for (index, result) in ... .enumerate()\<close> loop from row \<open>i\<close> on: a
  record is converted and pushed, with a progress line every thousandth row; a
  failed row is reported on stderr and skipped.  It returns the cities pushed and
  the lines printed, in order.
\<close>

fun load_rows :: "nat \<Rightarrow> csv_row list \<Rightarrow> city list \<times> load_msg list" where
  "load_rows i [] = ([], [])"
| "load_rows i (Inr r # rows) =
     (let (cities, msgs) = load_rows (Suc i) rows
      in (city_of_record r # cities,
          (if i mod 1000 = 0 then [Processed (Suc i)] else []) @ msgs))"
| "load_rows i (Inl e # rows) =
     (let (cities, msgs) = load_rows (Suc i) rows
      in (cities, RowError i e # msgs))"

text \<open>\<open>load_data\<close>: the printed lines and \<open>Err\<close> or \<open>Ok cities\<close>.\<close>

definition load_data :: "csv_file \<Rightarrow> load_msg list \<times> (load_error + city list)" where
  "load_data file =
     (case file of
        Inl e \<Rightarrow> ([], Inl (OpenFailed e))
      | Inr rows \<Rightarrow>
          (let (cities, msgs) = load_rows 0 rows
           in if cities = [] then (Reading # msgs, Inl NoValidData)
              else (Reading # msgs @ [Loaded (length cities)], Inr cities)))"

text \<open>The records of the rows that parsed, in file order.\<close>

fun ok_records :: "csv_row list \<Rightarrow> csv_record list" where
  "ok_records [] = []"
| "ok_records (Inr r # rows) = r # ok_records rows"
| "ok_records (Inl _ # rows) = ok_records rows"

fun failed_rows :: "nat \<Rightarrow> csv_row list \<Rightarrow> (nat \<times> string) list" where
  "failed_rows i [] = []"
| "failed_rows i (Inr _ # rows) = failed_rows (Suc i) rows"
| "failed_rows i (Inl e # rows) = (i, e) # failed_rows (Suc i) rows"

definition row_errors :: "load_msg list \<Rightarrow> (nat \<times> string) list" where
  "row_errors msgs = [(i, e). RowError i e \<leftarrow> msgs]"

subsection \<open>What the loader keeps\<close>

lemma load_rows_cities: "fst (load_rows i rows) = map city_of_record (ok_records rows)"
  by (induction i rows rule: load_rows.induct) (simp_all add: split_beta)

lemma load_rows_errors: "row_errors (snd (load_rows i rows)) = failed_rows i rows"
  by (induction i rows rule: load_rows.induct) (simp_all add: split_beta row_errors_def)

lemma load_rows_progress:
  "[n. Processed n \<leftarrow> snd (load_rows i rows)] =
     map (Suc \<circ> fst) (filter (\<lambda>(j, row). \<not> isl row \<and> j mod 1000 = 0) (enumerate i rows))"
  by (induction i rows rule: load_rows.induct) (simp_all add: split_beta)

lemma city_of_record_fields [simp]:
  "name (city_of_record r) = rec_city r"
  "latitude (city_of_record r) = rec_latitude r"
  "longitude (city_of_record r) = rec_longitude r"
  "population (city_of_record r) = rec_population r"
  "country (city_of_record r) = rec_country r"
  "province (city_of_record r) = rec_province r"
  by (simp_all add: city_of_record_def)

subsection \<open>Properties of the loader\<close>

text \<open>
  C18: \<open>load_data\<close> fails with \<open>OpenFailed\<close> when the file cannot be opened and
  with \<open>NoValidData\<close> when no row parses; otherwise it returns, in file order,
  the cities of exactly the rows that parsed, the failed rows being skipped.
\<close>

theorem load_data_result:
  "snd (load_data input) =
     (case input of
        Inl e \<Rightarrow> Inl (OpenFailed e)
      | Inr rows \<Rightarrow>
          if ok_records rows = [] then Inl NoValidData
          else Inr (map city_of_record (ok_records rows)))"
proof (cases input)
  case (Inl e)
  then show ?thesis by (simp add: load_data_def)
next
  case (Inr rows)
  have "fst (load_rows 0 rows) = map city_of_record (ok_records rows)"
    by (rule load_rows_cities)
  with Inr show ?thesis by (simp add: load_data_def split_beta)
qed

text \<open>A catalog that \<open>load_data\<close> returns is never empty.\<close>

lemma load_data_nonempty:
  assumes "snd (load_data input) = Inr cities"
  shows "cities \<noteq> []"
  using assms by (auto simp: load_data_def split_beta split: sum.splits if_splits)

text \<open>
  C19: every row that fails to parse is reported on stderr exactly once, with its
  index in the file, in file order, and no other row is reported.
\<close>

theorem load_data_reports_failed_rows:
  "row_errors (fst (load_data (Inr rows))) = failed_rows 0 rows"
proof -
  have "row_errors (snd (load_rows 0 rows)) = failed_rows 0 rows"
    by (rule load_rows_errors)
  then show ?thesis
    by (simp add: load_data_def split_beta row_errors_def)
qed

text \<open>
  C20: the progress lines are printed for exactly the rows that parse and whose
  index is a multiple of 1000, in file order, and each reports the index plus
  one: the number of rows read so far, failed rows included, although the line
  calls them records.  A failed row at such an index prints no progress line.
\<close>

theorem load_data_progress_lines:
  "[n. Processed n \<leftarrow> fst (load_data (Inr rows))] =
     map (Suc \<circ> fst) (filter (\<lambda>(j, row). \<not> isl row \<and> j mod 1000 = 0) (enumerate 0 rows))"
  using load_rows_progress [of 0 rows]
  by (simp add: load_data_def split_beta)

end
