(* ===== verification/Bands.thy ===== *)
theory Bands
  imports Catalog
begin

text \<open>
  The band filters of \<open>src/src/src/lib.rs\<close>: \<open>same_latitude\<close>,
  \<open>opposite_longitude\<close> and \<open>same_longitude\<close>.  The global \<open>DATA\<close> they
  read is the explicit argument \<open>data\<close> here; \<open>Runtime\<close> supplies it.  The
  windows are open, with edges \<open>lat \<plusminus> 0.5\<close> that the program rounds to
  doubles, so the properties below are stated up to a margin.
\<close>

subsection \<open>Operations\<close>

definition LATITUDE_TOLERANCE :: f64 where
  "LATITUDE_TOLERANCE = Num 0.5"

definition same_latitude :: "catalog \<Rightarrow> f64 \<Rightarrow> city list" where
  "same_latitude data lat =
     filter (\<lambda>city. f64_lt (latitude city) (f64_add lat LATITUDE_TOLERANCE) \<and>
                   f64_lt (f64_sub lat LATITUDE_TOLERANCE) (latitude city)) data"

definition opposite_longitude :: "f64 \<Rightarrow> f64" where
  "opposite_longitude long =
     (let opposite_long = f64_sub (Num 180) (f64_abs long)
      in if f64_lt (Num 0) long then f64_mul opposite_long (Num (-1)) else opposite_long)"

definition LONGITUDE_TOLERANCE :: f64 where
  "LONGITUDE_TOLERANCE = Num 0.5"

definition same_longitude :: "catalog \<Rightarrow> f64 \<Rightarrow> city list" where
  "same_longitude data long =
     (let opposite_long = opposite_longitude long
      in filter (\<lambda>city.
           (f64_lt (longitude city) (f64_add long LONGITUDE_TOLERANCE) \<and>
            f64_lt (f64_sub long LONGITUDE_TOLERANCE) (longitude city)) \<or>
           (f64_lt (longitude city) (f64_add opposite_long LONGITUDE_TOLERANCE) \<and>
            f64_lt (f64_sub opposite_long LONGITUDE_TOLERANCE) (longitude city))) data)"

subsection \<open>Band membership\<close>

text \<open>A double lies in the open window of half a degree around a real.\<close>

definition in_window :: "real \<Rightarrow> f64 \<Rightarrow> bool" where
  "in_window c v \<longleftrightarrow> (\<exists>x. v = Num x \<and> \<bar>x - c\<bar> < 1 / 2)"

lemma in_window_code [simp]:
  "in_window c (Num x) \<longleftrightarrow> \<bar>x - c\<bar> < 1 / 2" "\<not> in_window c NaN"
  by (auto simp: in_window_def)

lemma in_window_iff:
  "in_window c v \<longleftrightarrow> f64_lt v (Num (c + 1 / 2)) \<and> f64_lt (Num (c - 1 / 2)) v"
  by (cases v) (auto simp: abs_if)

lemma same_latitude_filter:
  "same_latitude data (Num lat) = filter (\<lambda>city. in_window lat (latitude city)) data"
  by (simp add: same_latitude_def LATITUDE_TOLERANCE_def in_window_iff)

lemma opposite_longitude_Num:
  "opposite_longitude (Num x) = Num (if 0 < x then x - 180 else x + 180)"
  by (simp add: opposite_longitude_def Let_def)

lemma same_longitude_filter:
  "same_longitude data (Num long) =
     filter (\<lambda>city. in_window long (longitude city) \<or>
                    in_window (if 0 < long then long - 180 else long + 180) (longitude city)) data"
  by (simp add: same_longitude_def LONGITUDE_TOLERANCE_def opposite_longitude_Num in_window_iff)

lemma in_window_self [simp]: "in_window x (Num x)"
  by simp

lemma city_in_same_latitude:
  "c \<in> set data \<Longrightarrow> latitude c = Num x \<Longrightarrow> c \<in> set (same_latitude data (latitude c))"
  by (simp add: same_latitude_filter)

lemma city_in_same_longitude:
  "c \<in> set data \<Longrightarrow> longitude c = Num x \<Longrightarrow> c \<in> set (same_longitude data (longitude c))"
  by (simp add: same_longitude_filter)

lemma same_latitude_subset: "set (same_latitude data lat) \<subseteq> set data"
  by (auto simp: same_latitude_def)

lemma same_longitude_subset: "set (same_longitude data long) \<subseteq> set data"
  by (auto simp: same_longitude_def Let_def)

subsection \<open>Properties of the bands\<close>

text \<open>
  C15: a city of the catalog whose latitude is a number is in its own latitude
  band, and a city whose longitude is a number is in its own longitude band.
\<close>

theorem bands_contain_city:
  assumes "c \<in> set data"
  shows "(\<not> is_nan (latitude c) \<longrightarrow> c \<in> set (same_latitude data (latitude c)))
    \<and> (\<not> is_nan (longitude c) \<longrightarrow> c \<in> set (same_longitude data (longitude c)))"
proof (intro conjI impI)
  assume "\<not> is_nan (latitude c)"
  then obtain x where "latitude c = Num x" by (cases "latitude c") auto
  with assms show "c \<in> set (same_latitude data (latitude c))"
    by (rule city_in_same_latitude)
next
  assume "\<not> is_nan (longitude c)"
  then obtain x where "longitude c = Num x" by (cases "longitude c") auto
  with assms show "c \<in> set (same_longitude data (longitude c))"
    by (rule city_in_same_longitude)
qed

text \<open>
  The model computes \<open>lat \<plusminus> 0.5\<close> and the antipodal meridian exactly; the
  program rounds them to doubles.  On coordinates of at most 180 degrees that
  rounding is below \<open>2\<^sup>-\<^sup>4\<^sup>4\<close>, so the two window properties below are
  stated with a margin of \<open>10\<^sup>-\<^sup>9\<close> degrees on either side of the half-degree
  edge: what they say of the model holds of the program too.
\<close>

text \<open>
  C16: the latitude band of a latitude of at most 180 degrees keeps catalog
  order (it is a subsequence of the catalog), holds every city whose latitude is
  within half a degree of it less the margin, and holds only cities whose
  latitude is a number within half a degree of it plus the margin.
\<close>

theorem same_latitude_window:
  assumes "\<bar>lat\<bar> \<le> 180"
  shows "subseq (same_latitude data (Num lat)) data
    \<and> (\<forall>c\<in>set data. \<forall>x. latitude c = Num x \<and> \<bar>x - lat\<bar> < 1 / 2 - 1 / 10 ^ 9
         \<longrightarrow> c \<in> set (same_latitude data (Num lat)))
    \<and> (\<forall>c\<in>set (same_latitude data (Num lat)).
         \<exists>x. latitude c = Num x \<and> \<bar>x - lat\<bar> < 1 / 2 + 1 / 10 ^ 9)"
  by (auto simp: same_latitude_filter in_window_def)

text \<open>
  C17: the longitude band of a longitude of at most 180 degrees keeps catalog
  order, holds every city within half a degree less the margin of it or of the
  antipodal meridian (the longitude moved by 180 degrees towards the other
  hemisphere, 0 going to 180), and holds only cities whose longitude is a number
  within half a degree plus the margin of one of the two.
\<close>

theorem same_longitude_window:
  assumes "\<bar>long\<bar> \<le> 180"
  shows "subseq (same_longitude data (Num long)) data
    \<and> (\<forall>c\<in>set data. \<forall>x. longitude c = Num x
           \<and> (\<bar>x - long\<bar> < 1 / 2 - 1 / 10 ^ 9 \<or> \<bar>x - (if 0 < long then long - 180 else long + 180)\<bar> < 1 / 2 - 1 / 10 ^ 9)
         \<longrightarrow> c \<in> set (same_longitude data (Num long)))
    \<and> (\<forall>c\<in>set (same_longitude data (Num long)). \<exists>x. longitude c = Num x
         \<and> (\<bar>x - long\<bar> < 1 / 2 + 1 / 10 ^ 9 \<or> \<bar>x - (if 0 < long then long - 180 else long + 180)\<bar> < 1 / 2 + 1 / 10 ^ 9))"
  by (auto simp: same_longitude_filter in_window_def)

end
