(* ===== verification/Sort_By.thy ===== *)
theory Sort_By
  imports Float64
begin

text \<open>
  The three sorts of \<open>src/src/src/lib.rs\<close> (\<open>top_by_population\<close>,
  \<open>sort_easterly\<close>, \<open>sort_northerly\<close>) call the standard library's stable
  \<open>slice::sort_by\<close> with a comparator of the form
  \<open>|a, b| key(a).partial_cmp(&key(b)).unwrap()\<close>.  The comparator is modelled as
  a function into \<open>ordering option\<close>, \<open>None\<close> being the panic of \<open>unwrap()\<close>,
  and the sort as a stable insertion sort that panics at the first comparison
  that panics.  For a comparator that is a total preorder every stable sort
  returns the same list, so \<open>sort_by\<close> returns what the library returns
  (\<open>sort_by_refines_sort_key\<close>); when some key is NaN, every comparison sort
  with two or more elements compares that element, so the panic condition of
  \<open>sort_by_None_iff\<close> is that of the library's sort too.
\<close>

subsection \<open>The sort\<close>

fun insert_by :: "('a \<Rightarrow> 'a \<Rightarrow> ordering option) \<Rightarrow> 'a \<Rightarrow> 'a list \<Rightarrow> 'a list option" where
  "insert_by cmp x [] = Some [x]"
| "insert_by cmp x (y # ys) =
     (case cmp x y of
        None \<Rightarrow> None
      | Some Greater \<Rightarrow> map_option ((#) y) (insert_by cmp x ys)
      | Some _ \<Rightarrow> Some (x # y # ys))"

fun sort_by :: "('a \<Rightarrow> 'a \<Rightarrow> ordering option) \<Rightarrow> 'a list \<Rightarrow> 'a list option" where
  "sort_by cmp [] = Some []"
| "sort_by cmp (x # xs) =
     (case sort_by cmp xs of None \<Rightarrow> None | Some ys \<Rightarrow> insert_by cmp x ys)"

text \<open>
  A comparator agrees with a real-valued key \<open>k\<close> on a set when it never panics
  there and orders as the keys do.
\<close>

definition cmp_agrees :: "('a \<Rightarrow> 'a \<Rightarrow> ordering option) \<Rightarrow> ('a \<Rightarrow> real) \<Rightarrow> 'a set \<Rightarrow> bool" where
  "cmp_agrees cmp k A \<longleftrightarrow> (\<forall>a\<in>A. \<forall>b\<in>A. cmp a b = Some (cmp_real (k a) (k b)))"

definition no_nan_key :: "('a \<Rightarrow> f64) \<Rightarrow> 'a list \<Rightarrow> bool" where
  "no_nan_key f xs \<longleftrightarrow> (\<forall>x\<in>set xs. \<not> is_nan (f x))"

text \<open>
  A comparator that fails exactly on the elements with a bad key: the sort
  panics if and only if there are at least two elements and one is bad.
\<close>

definition fails_on :: "('a \<Rightarrow> 'a \<Rightarrow> ordering option) \<Rightarrow> ('a \<Rightarrow> bool) \<Rightarrow> bool" where
  "fails_on cmp bad \<longleftrightarrow> (\<forall>a b. cmp a b = None \<longleftrightarrow> bad a \<or> bad b)"

subsection \<open>What the sort returns is a permutation\<close>

lemma insert_by_mset:
  "insert_by cmp x ys = Some zs \<Longrightarrow> mset zs = add_mset x (mset ys)"
  by (induction ys arbitrary: zs) (auto split: option.splits ordering.splits)

lemma sort_by_mset:
  "sort_by cmp xs = Some ys \<Longrightarrow> mset ys = mset xs"
  by (induction xs arbitrary: ys) (auto split: option.splits dest: insert_by_mset)

lemma sort_by_set: "sort_by cmp xs = Some ys \<Longrightarrow> set ys = set xs"
  by (metis sort_by_mset set_mset_mset)

lemma sort_by_length: "sort_by cmp xs = Some ys \<Longrightarrow> length ys = length xs"
  by (metis sort_by_mset size_mset)

subsection \<open>Refinement: on a total order the sort is \<open>sort_key\<close>\<close>

lemma cmp_agrees_subset: "cmp_agrees cmp k A \<Longrightarrow> B \<subseteq> A \<Longrightarrow> cmp_agrees cmp k B"
  by (auto simp: cmp_agrees_def)

lemma insert_by_insort_key:
  assumes "\<forall>y\<in>set ys. cmp x y = Some (cmp_real (k x) (k y))"
  shows "insert_by cmp x ys = Some (insort_key k x ys)"
  using assms
  by (induction ys) (auto simp: cmp_real_def split: ordering.splits)

lemma sort_by_refines_sort_key:
  "cmp_agrees cmp k (set xs) \<Longrightarrow> sort_by cmp xs = Some (sort_key k xs)"
proof (induction xs)
  case Nil
  then show ?case by simp
next
  case (Cons x xs)
  from Cons.prems have "cmp_agrees cmp k (set xs)"
    by (rule cmp_agrees_subset) auto
  with Cons.IH have "sort_by cmp xs = Some (sort_key k xs)" by blast
  moreover from Cons.prems have "\<forall>y\<in>set (sort_key k xs). cmp x y = Some (cmp_real (k x) (k y))"
    by (simp add: cmp_agrees_def)
  ultimately show ?case by (simp add: insert_by_insort_key)
qed

subsection \<open>Key comparators on doubles\<close>

text \<open>
  The program's comparators compare one \<open>f64\<close> field: ascending
  (\<open>a.k.partial_cmp(&b.k)\<close>) or descending (\<open>b.k.partial_cmp(&a.k)\<close>).  On
  elements whose key is not NaN they agree with the real key, negated for the
  descending order.
\<close>

lemma no_nan_key_filter [intro]: "no_nan_key f xs \<Longrightarrow> no_nan_key f (filter P xs)"
  by (auto simp: no_nan_key_def)

lemma no_nan_key_Cons [simp]: "no_nan_key f (x # xs) \<longleftrightarrow> \<not> is_nan (f x) \<and> no_nan_key f xs"
  by (simp add: no_nan_key_def)

lemma no_nan_key_Num: "no_nan_key f xs \<Longrightarrow> x \<in> set xs \<Longrightarrow> f x = Num (f64_val (f x))"
  by (simp add: no_nan_key_def not_nan_Num)

lemma no_nan_key_mset: "mset ys = mset xs \<Longrightarrow> no_nan_key f xs \<Longrightarrow> no_nan_key f ys"
  by (simp add: no_nan_key_def flip: set_mset_mset)

lemma partial_cmp_val:
  "\<not> is_nan a \<Longrightarrow> \<not> is_nan b \<Longrightarrow> partial_cmp a b = Some (cmp_real (f64_val a) (f64_val b))"
  by (cases a; cases b) auto

lemma cmp_real_neg: "cmp_real (- x) (- y) = cmp_real y x"
  by (auto simp: cmp_real_def)

lemma cmp_agrees_asc:
  "no_nan_key f xs \<Longrightarrow> cmp_agrees (\<lambda>a b. partial_cmp (f a) (f b)) (\<lambda>x. f64_val (f x)) (set xs)"
  by (simp add: cmp_agrees_def no_nan_key_def partial_cmp_val)

lemma cmp_agrees_desc:
  "no_nan_key f xs \<Longrightarrow> cmp_agrees (\<lambda>a b. partial_cmp (f b) (f a)) (\<lambda>x. - f64_val (f x)) (set xs)"
  by (simp add: cmp_agrees_def no_nan_key_def partial_cmp_val cmp_real_neg)

lemma sort_by_asc:
  "no_nan_key f xs \<Longrightarrow>
     sort_by (\<lambda>a b. partial_cmp (f a) (f b)) xs = Some (sort_key (\<lambda>x. f64_val (f x)) xs)"
  by (rule sort_by_refines_sort_key) (rule cmp_agrees_asc)

lemma sort_by_desc:
  "no_nan_key f xs \<Longrightarrow>
     sort_by (\<lambda>a b. partial_cmp (f b) (f a)) xs = Some (sort_key (\<lambda>x. - f64_val (f x)) xs)"
  by (rule sort_by_refines_sort_key) (rule cmp_agrees_desc)

subsection \<open>When the sort panics\<close>

lemma fails_onD: "fails_on cmp bad \<Longrightarrow> cmp a b = None \<longleftrightarrow> bad a \<or> bad b"
  by (simp add: fails_on_def)

lemma insert_by_good:
  assumes "fails_on cmp bad" and "\<not> bad x" and "\<forall>y\<in>set ys. \<not> bad y"
  shows "insert_by cmp x ys \<noteq> None"
  using assms(3)
proof (induction ys)
  case Nil
  then show ?case by simp
next
  case (Cons y ys)
  with assms(1,2) have "cmp x y \<noteq> None" by (simp add: fails_on_def)
  with Cons show ?case by (auto split: ordering.splits)
qed

lemma insert_by_bad:
  "fails_on cmp bad \<Longrightarrow> bad x \<Longrightarrow> ys \<noteq> [] \<Longrightarrow> insert_by cmp x ys = None"
proof (cases ys)
  case (Cons y ys')
  assume "fails_on cmp bad" "bad x"
  then have "cmp x y = None" by (simp add: fails_onD)
  with Cons show ?thesis by simp
qed simp

lemma insert_by_single_None:
  "fails_on cmp bad \<Longrightarrow> insert_by cmp x [y] = None \<longleftrightarrow> bad x \<or> bad y"
  using fails_onD [of cmp bad x y]
  by (cases "cmp x y") (auto split: ordering.splits)

lemma sort_by_None_iff:
  assumes "fails_on cmp bad"
  shows "sort_by cmp xs = None \<longleftrightarrow> 2 \<le> length xs \<and> (\<exists>x\<in>set xs. bad x)"
proof (induction xs)
  case Nil
  then show ?case by simp
next
  case (Cons x xs)
  show ?case
  proof (cases "sort_by cmp xs")
    case None
    with Cons.IH show ?thesis by auto
  next
    case (Some ys)
    then have ys: "mset ys = mset xs" by (rule sort_by_mset)
    then have len: "length ys = length xs" and set: "set ys = set xs"
      by (metis size_mset, metis set_mset_mset)
    from Some Cons.IH have good: "length xs < 2 \<or> (\<forall>y\<in>set xs. \<not> bad y)"
      by auto
    consider "xs = []" | y where "xs = [y]" | "2 \<le> length xs"
      by (metis One_nat_def Suc_1 length_0_conv length_Suc_conv less_2_cases not_le)
    then show ?thesis
    proof cases
      case 1
      with Some show ?thesis by simp
    next
      case (2 y)
      with ys have "ys = [y]" by simp
      with 2 Some insert_by_single_None [OF assms] show ?thesis by simp
    next
      case 3
      with good have nb: "\<forall>y\<in>set xs. \<not> bad y" by simp
      from 3 len have ne: "ys \<noteq> []" by auto
      show ?thesis
      proof (cases "bad x")
        case True
        with Some 3 show ?thesis by (simp add: insert_by_bad [OF assms True ne])
      next
        case False
        with nb set have "insert_by cmp x ys \<noteq> None"
          by (simp add: insert_by_good [OF assms])
        with False nb Some show ?thesis by simp
      qed
    qed
  qed
qed

lemma fails_on_asc: "fails_on (\<lambda>a b. partial_cmp (f a) (f b)) (\<lambda>x. is_nan (f x))"
  by (simp add: fails_on_def)

lemma fails_on_desc: "fails_on (\<lambda>a b. partial_cmp (f b) (f a)) (\<lambda>x. is_nan (f x))"
  by (auto simp: fails_on_def)

subsection \<open>What a returning sort guarantees\<close>

text \<open>
  When a key sort returns, its result is sorted by the real key: either no key
  is NaN, and it is the stable sort, or the list has at most one element.
\<close>

lemma short_sorted: "length xs < 2 \<Longrightarrow> sorted (map k xs)"
  by (cases xs rule: remdups_adj.cases) auto

lemma sort_by_sorted_asc:
  assumes "sort_by (\<lambda>a b. partial_cmp (f a) (f b)) xs = Some ys"
  shows "sorted (map (\<lambda>x. f64_val (f x)) ys)"
proof (cases "no_nan_key f xs")
  case True
  with assms have "ys = sort_key (\<lambda>x. f64_val (f x)) xs" by (simp add: sort_by_asc)
  then show ?thesis by (simp only: sorted_sort_key)
next
  case False
  with assms sort_by_None_iff [OF fails_on_asc, of f xs] have "length xs < 2"
    by (auto simp: no_nan_key_def)
  with sort_by_length [OF assms] show ?thesis by (simp add: short_sorted)
qed

lemma sort_by_sorted_desc:
  assumes "sort_by (\<lambda>a b. partial_cmp (f b) (f a)) xs = Some ys"
  shows "sorted (map (\<lambda>x. - f64_val (f x)) ys)"
proof (cases "no_nan_key f xs")
  case True
  with assms have "ys = sort_key (\<lambda>x. - f64_val (f x)) xs" by (simp add: sort_by_desc)
  then show ?thesis by (simp only: sorted_sort_key)
next
  case False
  with assms sort_by_None_iff [OF fails_on_desc, of f xs] have "length xs < 2"
    by (auto simp: no_nan_key_def)
  with sort_by_length [OF assms] show ?thesis by (simp add: short_sorted)
qed

end
