(* ===== verification/Ranking.thy ===== *)
theory Ranking
  imports Sort_By Catalog
begin

text \<open>
  \<open>top_by_population\<close> of \<open>src/src/src/lib.rs\<close>: a stable sort by descending
  population, whose comparator panics on a NaN population, then the first
  \<open>NUM_CITIES\<close> cities.  The theory proves that the result is the largest
  cities, in descending order, ties kept in input order, and says exactly when
  the sort panics.
\<close>

definition NUM_CITIES :: nat where
  "NUM_CITIES = 10"

definition top_by_population :: "city list \<Rightarrow> city list option" where
  "top_by_population cities =
     (case sort_by (\<lambda>a b. partial_cmp (population b) (population a)) cities of
        None \<Rightarrow> None
      | Some cities \<Rightarrow> Some (take NUM_CITIES cities))"

text \<open>The population of a city as a real number (meaningful when it is not NaN).\<close>

abbreviation pop :: "city \<Rightarrow> real" where
  "pop c \<equiv> f64_val (population c)"

subsection \<open>Refinement to \<open>sort_key\<close>\<close>

lemma top_by_population_sort_key:
  "no_nan_key population cities \<Longrightarrow>
     top_by_population cities = Some (take NUM_CITIES (sort_key (\<lambda>c. - pop c) cities))"
  by (simp add: top_by_population_def sort_by_desc)

lemma sorted_neg_pop_take:
  "sorted (map (\<lambda>c. - pop c) (take n (sort_key (\<lambda>c. - pop c) xs)))"
  by (metis sorted_sort_key sorted_take_prefix take_map)

lemma sorted_wrt_pop_desc:
  "sorted (map (\<lambda>c. - pop c) xs) \<Longrightarrow> sorted_wrt (\<lambda>a b. pop b \<le> pop a) xs"
  by (induction xs) auto

lemma take_drop_key_le:
  fixes k :: "'a \<Rightarrow> 'b::linorder"
  assumes "sorted (map k xs)" and "c \<in> set (take n xs)" and "d \<in> set (drop n xs)"
  shows "k c \<le> k d"
proof -
  have "map k xs = map k (take n xs) @ map k (drop n xs)"
    by (simp flip: map_append)
  with assms(1) have "sorted (map k (take n xs) @ map k (drop n xs))"
    by simp
  then have "\<forall>x\<in>set (take n xs). \<forall>y\<in>set (drop n xs). k x \<le> k y"
    by (simp add: sorted_append)
  with assms(2,3) show ?thesis by blast
qed

lemma mset_take_drop_split: "mset xs = mset (take n xs) + mset (drop n xs)"
  by (simp flip: mset_append)

subsection \<open>Properties of the ranking\<close>

text \<open>
  C6: on cities whose populations are numbers, \<open>top_by_population\<close> returns
  \<open>min 10 n\<close> of the \<open>n\<close> cities, in non-increasing order of population, taken
  from the input, and every input city it leaves out has a population no larger
  than that of any city it keeps.
\<close>

theorem top_by_population_correct:
  assumes "no_nan_key population cities"
  shows "\<exists>r. top_by_population cities = Some r
    \<and> length r = min NUM_CITIES (length cities)
    \<and> sorted_wrt (\<lambda>a b. pop b \<le> pop a) r
    \<and> mset r \<subseteq># mset cities
    \<and> (\<forall>c\<in>set r. \<forall>d\<in>#mset cities - mset r. pop d \<le> pop c)"
proof -
  define s where "s = sort_key (\<lambda>c. - pop c) cities"
  define r where "r = take NUM_CITIES s"
  have top: "top_by_population cities = Some r"
    using assms by (simp add: top_by_population_sort_key s_def r_def)
  have split: "mset cities = mset r + mset (drop NUM_CITIES s)"
    using mset_take_drop_split [of s NUM_CITIES] by (simp add: s_def r_def)
  have len: "length r = min NUM_CITIES (length cities)"
    by (simp add: r_def s_def)
  have sorted: "sorted_wrt (\<lambda>a b. pop b \<le> pop a) r"
    unfolding r_def s_def by (rule sorted_wrt_pop_desc) (rule sorted_neg_pop_take)
  have sub: "mset r \<subseteq># mset cities"
    unfolding split by (rule mset_subset_eq_add_left)
  have rest: "\<forall>c\<in>set r. \<forall>d\<in>#mset cities - mset r. pop d \<le> pop c"
  proof (intro ballI)
    fix c d
    assume c: "c \<in> set r" and "d \<in># mset cities - mset r"
    then have "d \<in># mset (drop NUM_CITIES s)" by (simp add: split)
    then have "d \<in> set (drop NUM_CITIES s)" by simp
    with c have "- pop c \<le> - pop d"
      unfolding r_def by (rule take_drop_key_le [rotated]) (simp add: s_def)
    then show "pop d \<le> pop c" by simp
  qed
  from top len sorted sub rest show ?thesis by blast
qed

text \<open>
  C12: \<open>top_by_population\<close> panics (the \<open>unwrap()\<close> of its comparator) exactly
  when it is given at least two cities and one of them has a NaN population.
\<close>

theorem top_by_population_panics_iff:
  "top_by_population cities = None \<longleftrightarrow>
     2 \<le> length cities \<and> (\<exists>c\<in>set cities. is_nan (population c))"
proof -
  have "sort_by (\<lambda>a b. partial_cmp (population b) (population a)) cities = None \<longleftrightarrow>
     2 \<le> length cities \<and> (\<exists>c\<in>set cities. is_nan (population c))"
    by (rule sort_by_None_iff) (rule fails_on_desc)
  moreover have "top_by_population cities = None \<longleftrightarrow>
     sort_by (\<lambda>a b. partial_cmp (population b) (population a)) cities = None"
    by (simp add: top_by_population_def split: option.split)
  ultimately show ?thesis by simp
qed

text \<open>
  C11: the ranking is stable: among the cities of any one population, those
  that \<open>top_by_population\<close> keeps are the first ones of the input, in input order.
\<close>

theorem top_by_population_stable:
  assumes "no_nan_key population cities" and "top_by_population cities = Some r"
  shows "Sublist.prefix (filter (\<lambda>c. pop c = p) r) (filter (\<lambda>c. pop c = p) cities)"
proof -
  let ?s = "sort_key (\<lambda>c. - pop c) cities"
  from assms have r: "r = take NUM_CITIES ?s"
    by (simp add: top_by_population_sort_key)
  have "filter (\<lambda>c. - pop c = - p) ?s = filter (\<lambda>c. - pop c = - p) cities"
    by (rule sort_key_stable)
  then have "filter (\<lambda>c. pop c = p) ?s = filter (\<lambda>c. pop c = p) cities"
    by simp
  with r show ?thesis
    using prefix_filter_take [of "\<lambda>c. pop c = p" NUM_CITIES ?s] by simp
qed

end
