(* ===== verification/Directional.thy ===== *)
theory Directional
  imports Sort_By Catalog
begin

text \<open>
  The two directional sorts of \<open>src/src/src/lib.rs\<close>.  \<open>sort_easterly\<close> turns a
  set of cities of one latitude band into the sequence met when flying east from
  the reference longitude; \<open>sort_northerly\<close> turns a set of cities of one
  meridian band into the sequence met when flying north from the reference
  point over the North Pole, down the antipodal meridian, over the South Pole and
  back.  Both sort with \<open>sort_by\<close> (a panicking comparator) and split with
  \<open>partition\<close>, which is \<open>partition_map\<close> with \<open>Either::Left\<close> for the first
  list.  The theory proves that the reference city comes last, that each result
  is ordered by the distance flown, that the easterly sort is stable, and when
  each sort panics.
\<close>

subsection \<open>Operations\<close>

definition sort_easterly :: "city list \<Rightarrow> f64 \<Rightarrow> city list option" where
  "sort_easterly cities start_long =
     (case sort_by (\<lambda>a b. partial_cmp (longitude a) (longitude b)) cities of
        None \<Rightarrow> None
      | Some cities \<Rightarrow>
          (let (west, east) = partition (\<lambda>city. f64_le (longitude city) start_long) cities
           in Some (east @ west)))"

text \<open>
  The partition of \<open>sort_northerly\<close>: a city is on the reference's side when
  its longitude has the sign of \<open>start_long\<close>, longitude 0 counting as
  non-negative.
\<close>

definition same_side :: "f64 \<Rightarrow> city \<Rightarrow> bool" where
  "same_side start_long city =
     (let start_long_negative = f64_lt start_long (Num 0)
      in if start_long_negative then f64_lt (longitude city) (Num 0)
         else \<not> f64_lt (longitude city) (Num 0))"

definition sort_northerly :: "city list \<Rightarrow> f64 \<Rightarrow> f64 \<Rightarrow> city list option" where
  "sort_northerly cities start_lat start_long =
     (let (same_side_cities, opp_side) = partition (same_side start_long) cities
      in case sort_by (\<lambda>a b. partial_cmp (latitude a) (latitude b)) same_side_cities of
           None \<Rightarrow> None
         | Some same_side_cities \<Rightarrow>
             (let (north, south) = partition (\<lambda>city. f64_lt start_lat (latitude city)) same_side_cities
              in case sort_by (\<lambda>a b. partial_cmp (latitude b) (latitude a)) opp_side of
                   None \<Rightarrow> None
                 | Some opp_side \<Rightarrow> Some (north @ [NORTH_POLE] @ opp_side @ [SOUTH_POLE] @ south)))"

text \<open>Real longitude and latitude of a city (meaningful when not NaN).\<close>

abbreviation lon :: "city \<Rightarrow> real" where
  "lon c \<equiv> f64_val (longitude c)"

abbreviation lat :: "city \<Rightarrow> real" where
  "lat c \<equiv> f64_val (latitude c)"

text \<open>
  How far east of the reference longitude \<open>l\<close> a city lies, in degrees, in
  \<open>(0, 360]\<close>: a city at the reference longitude is a full circle away.
\<close>

definition east_offset :: "real \<Rightarrow> city \<Rightarrow> real" where
  "east_offset l c = (if l < lon c then lon c - l else lon c - l + 360)"

text \<open>The two halves of the band, sorted as \<open>sort_northerly\<close> sorts them.\<close>

abbreviation same_sorted :: "f64 \<Rightarrow> city list \<Rightarrow> city list" where
  "same_sorted start_long cities \<equiv> sort_key lat (filter (same_side start_long) cities)"

abbreviation opp_sorted :: "f64 \<Rightarrow> city list \<Rightarrow> city list" where
  "opp_sorted start_long cities \<equiv> sort_key (\<lambda>c. - lat c) (filter (Not \<circ> same_side start_long) cities)"

text \<open>
  How far a city lies along the route that leaves the reference latitude
  \<open>phi\<close> northwards on the reference's side, crosses the North Pole (at
  \<open>90 - phi\<close>), comes down the antipodal meridian, crosses the South Pole (at
  \<open>270 - phi\<close>) and climbs back: a city at the reference latitude on the
  reference's side is a full circle, 360 degrees, away.
\<close>

definition north_offset :: "real \<Rightarrow> f64 \<Rightarrow> city \<Rightarrow> real" where
  "north_offset phi start_long c =
     (if same_side start_long c
      then (if phi < lat c then lat c - phi else 360 - phi + lat c)
      else 180 - phi - lat c)"

subsection \<open>The easterly sort on numbers\<close>

lemma filter_le_lon:
  assumes "no_nan_key longitude xs"
  shows "filter (\<lambda>city. f64_le (longitude city) (Num l)) xs = filter (\<lambda>c. lon c \<le> l) xs"
    and "filter (Not \<circ> (\<lambda>city. f64_le (longitude city) (Num l))) xs = filter (\<lambda>c. \<not> lon c \<le> l) xs"
  using assms
  by (auto intro!: filter_cong simp: no_nan_key_def f64_le_val)

lemma sort_easterly_Num:
  assumes "no_nan_key longitude cities"
  shows "sort_easterly cities (Num l) =
     Some (filter (\<lambda>c. \<not> lon c \<le> l) (sort_key lon cities) @
           filter (\<lambda>c. lon c \<le> l) (sort_key lon cities))"
proof -
  have "no_nan_key longitude (sort_key lon cities)"
    using assms by (rule no_nan_key_mset [rotated]) simp
  with assms show ?thesis
    by (simp add: sort_easterly_def sort_by_asc filter_le_lon)
qed

text \<open>
  C24: \<open>sort_easterly\<close> panics (the \<open>unwrap()\<close> of its comparator) exactly when
  it is given at least two cities and one has a NaN longitude; a single city
  with a NaN longitude passes through, and lands in the eastern part.
\<close>

theorem sort_easterly_panics_iff:
  "sort_easterly cities start_long = None \<longleftrightarrow>
     2 \<le> length cities \<and> (\<exists>c\<in>set cities. is_nan (longitude c))"
proof -
  have "sort_by (\<lambda>a b. partial_cmp (longitude a) (longitude b)) cities = None \<longleftrightarrow>
     2 \<le> length cities \<and> (\<exists>c\<in>set cities. is_nan (longitude c))"
    by (rule sort_by_None_iff) (rule fails_on_asc)
  moreover have "sort_easterly cities start_long = None \<longleftrightarrow>
     sort_by (\<lambda>a b. partial_cmp (longitude a) (longitude b)) cities = None"
    by (simp add: sort_easterly_def split: option.split prod.split)
  ultimately show ?thesis by simp
qed

lemma sorted_lon_filter: "sorted (map lon (filter P (sort_key lon xs)))"
  by (rule sorted_filter_map) simp

subsection \<open>Properties of the easterly sort\<close>

text \<open>
  The reference city is the last of the cities at or west of its longitude,
  when no other city has its longitude.
\<close>

lemma west_ends_with_reference:
  assumes "no_nan_key longitude cities" and "c \<in> set cities" and "longitude c = Num l"
    and "\<forall>d\<in>set cities. longitude d = longitude c \<longrightarrow> d = c"
  shows "filter (\<lambda>c. lon c \<le> l) (sort_key lon cities) \<noteq> [] \<and>
         last (filter (\<lambda>c. lon c \<le> l) (sort_key lon cities)) = c"
proof -
  let ?west = "filter (\<lambda>c. lon c \<le> l) (sort_key lon cities)"
  have c_in: "c \<in> set ?west" using assms(2,3) by simp
  have max: "\<forall>y\<in>set ?west. y \<noteq> c \<longrightarrow> lon y < lon c"
  proof (intro ballI impI)
    fix y assume y: "y \<in> set ?west" "y \<noteq> c"
    then have y_in: "y \<in> set cities" and le: "lon y \<le> l" by auto
    have "lon y \<noteq> l"
    proof
      assume "lon y = l"
      with no_nan_key_Num [OF assms(1) y_in] assms(3) have "longitude y = longitude c" by simp
      with assms(4) y_in y(2) show False by blast
    qed
    with le assms(3) show "lon y < lon c" by simp
  qed
  have "last ?west = c"
    by (rule sorted_unique_max_last [OF sorted_lon_filter c_in max])
  moreover from c_in have "?west \<noteq> []" by (metis empty_iff empty_set)
  ultimately show ?thesis by simp
qed

lemma sort_easterly_mset:
  "sort_easterly cities start_long = Some r \<Longrightarrow> mset r = mset cities"
  by (auto simp: sort_easterly_def mset_filter_partition [simplified comp_def] union_commute
           split: option.splits dest!: sort_by_mset)

text \<open>
  C1: when the reference city is one of the cities and no other city has its
  longitude, \<open>sort_easterly\<close> returns a sequence whose last element is the
  reference city.
\<close>

theorem sort_easterly_reference_last:
  assumes "no_nan_key longitude cities" and "c \<in> set cities" and "longitude c = Num l"
    and "\<forall>d\<in>set cities. longitude d = longitude c \<longrightarrow> d = c"
  shows "\<exists>r. sort_easterly cities (Num l) = Some r \<and> last r = c"
  using west_ends_with_reference [OF assms]
  by (simp add: sort_easterly_Num [OF assms(1)])

text \<open>
  C13: \<open>sort_easterly\<close> is the ascending order of longitudes rotated so that it
  starts with the first city east of the reference longitude: its result is
  \<open>rotate k\<close> of the stable sort by longitude, \<open>k\<close> the number of cities at or
  west of the reference.
\<close>

theorem sort_easterly_rotation:
  assumes "no_nan_key longitude cities"
  shows "sort_easterly cities (Num l) =
     Some (rotate (length (filter (\<lambda>c. lon c \<le> l) cities)) (sort_key lon cities))"
proof -
  let ?s = "sort_key lon cities"
  let ?west = "filter (\<lambda>c. lon c \<le> l) ?s" and ?east = "filter (\<lambda>c. \<not> lon c \<le> l) ?s"
  have "?west @ ?east = ?s"
    by (rule sorted_filter_le_append_gt) simp
  moreover have "length ?west = length (filter (\<lambda>c. lon c \<le> l) cities)"
    by (simp add: filter_sort)
  ultimately have "rotate (length (filter (\<lambda>c. lon c \<le> l) cities)) ?s = ?east @ ?west"
    by (metis rotate_append)
  then show ?thesis by (simp add: sort_easterly_Num [OF assms])
qed

text \<open>
  C14: \<open>sort_easterly\<close> is stable: on numeric longitudes, the cities that
  share a longitude appear in its result in the order they had in its input,
  which in the program is the descending order of population.
\<close>

theorem sort_easterly_stable:
  assumes "no_nan_key longitude cities" and "sort_easterly cities start_long = Some r"
  shows "filter (\<lambda>c. lon c = y) r = filter (\<lambda>c. lon c = y) cities"
proof -
  let ?s = "sort_key lon cities"
  let ?P = "\<lambda>city. f64_le (longitude city) start_long"
  let ?Q = "\<lambda>c. lon c = y"
  from assms have r: "r = filter (Not \<circ> ?P) ?s @ filter ?P ?s"
    by (simp add: sort_easterly_def sort_by_asc partition_filter_conv)
  have "no_nan_key longitude ?s"
    using assms(1) by (rule no_nan_key_mset [rotated]) simp
  then have same: "\<forall>c\<in>set ?s. ?Q c \<longrightarrow> ?P c = f64_le (Num y) start_long"
    by (metis no_nan_key_Num)
  have "filter ?Q r = filter ?Q ?s"
  proof (cases "f64_le (Num y) start_long")
    case True
    with same have "filter ?Q (filter (Not \<circ> ?P) ?s) = []" and "filter ?Q (filter ?P ?s) = filter ?Q ?s"
      by (auto simp: filter_empty_conv intro!: filter_cong)
    with r show ?thesis by simp
  next
    case False
    with same have "filter ?Q (filter (Not \<circ> ?P) ?s) = filter ?Q ?s" and "filter ?Q (filter ?P ?s) = []"
      by (auto simp: filter_empty_conv intro!: filter_cong)
    with r show ?thesis by simp
  qed
  also have "\<dots> = filter ?Q cities" by (rule sort_key_stable)
  finally show ?thesis .
qed

text \<open>
  C4: on longitudes of \<open>(-180, 180]\<close>, \<open>sort_easterly\<close> returns the cities it is
  given, ordered by how far east of the reference each one lies, every offset in
  \<open>(0, 360]\<close>: the sequence is the order in which a flight east meets them.
\<close>

theorem sort_easterly_route:
  assumes "no_nan_key longitude cities"
    and "\<forall>c\<in>set cities. -180 < lon c \<and> lon c \<le> 180" and "-180 < l" and "l \<le> 180"
  shows "\<exists>r. sort_easterly cities (Num l) = Some r \<and> mset r = mset cities
    \<and> sorted (map (east_offset l) r) \<and> (\<forall>c\<in>set r. 0 < east_offset l c \<and> east_offset l c \<le> 360)"
proof -
  let ?s = "sort_key lon cities"
  let ?west = "filter (\<lambda>c. lon c \<le> l) ?s" and ?east = "filter (\<lambda>c. \<not> lon c \<le> l) ?s"
  have ms: "mset (?east @ ?west) = mset cities"
  proof -
    have "mset (?west @ ?east) = mset ?s"
      by (simp add: sorted_filter_le_append_gt)
    then show ?thesis by (simp add: union_commute)
  qed
  have east: "sorted (map (east_offset l) ?east)"
    by (rule sorted_map_mono_on [OF sorted_lon_filter]) (auto simp: east_offset_def)
  have west: "sorted (map (east_offset l) ?west)"
    by (rule sorted_map_mono_on [OF sorted_lon_filter]) (auto simp: east_offset_def)
  have cross: "\<forall>x\<in>set ?east. \<forall>y\<in>set ?west. east_offset l x \<le> east_offset l y"
  proof (intro ballI)
    fix x y assume x: "x \<in> set ?east" and y: "y \<in> set ?west"
    then have "lon x \<le> 180" "-180 < lon y" "l < lon x" "lon y \<le> l"
      using assms(2) by auto
    then show "east_offset l x \<le> east_offset l y"
      by (simp add: east_offset_def)
  qed
  have bounds: "\<forall>c\<in>set (?east @ ?west). 0 < east_offset l c \<and> east_offset l c \<le> 360"
  proof
    fix c assume "c \<in> set (?east @ ?west)"
    then have "-180 < lon c" "lon c \<le> 180" using assms(2) by auto
    with assms(3,4) show "0 < east_offset l c \<and> east_offset l c \<le> 360"
      by (simp add: east_offset_def)
  qed
  from east west cross have "sorted (map (east_offset l) (?east @ ?west))"
    by (simp add: sorted_append)
  with ms bounds show ?thesis by (simp add: sort_easterly_Num [OF assms(1)])
qed

subsection \<open>The northerly sort on numbers\<close>

lemma same_side_self [simp]: "same_side (longitude c) c"
  by (simp add: same_side_def Let_def)

lemma filter_lt_lat:
  assumes "no_nan_key latitude xs"
  shows "filter (\<lambda>city. f64_lt (Num phi) (latitude city)) xs = filter (\<lambda>c. phi < lat c) xs"
    and "filter (Not \<circ> (\<lambda>city. f64_lt (Num phi) (latitude city))) xs = filter (\<lambda>c. \<not> phi < lat c) xs"
  using assms
  by (auto intro!: filter_cong simp: no_nan_key_def f64_lt_val)

lemma sort_northerly_Num:
  assumes "no_nan_key latitude cities"
  shows "sort_northerly cities (Num phi) start_long =
     Some (filter (\<lambda>c. phi < lat c) (same_sorted start_long cities) @ [NORTH_POLE] @
           opp_sorted start_long cities @ [SOUTH_POLE] @
           filter (\<lambda>c. \<not> phi < lat c) (same_sorted start_long cities))"
proof -
  have same: "no_nan_key latitude (filter (same_side start_long) cities)"
    and opp: "no_nan_key latitude (filter (Not \<circ> same_side start_long) cities)"
    using assms by auto
  have "no_nan_key latitude (same_sorted start_long cities)"
    using same by (rule no_nan_key_mset [rotated]) simp
  with same opp show ?thesis
    by (simp add: sort_northerly_def sort_by_asc sort_by_desc filter_lt_lat)
qed

text \<open>
  C25: \<open>sort_northerly\<close> panics exactly when one of its two sides holds at least
  two cities and a city of that side has a NaN latitude: a NaN latitude alone on
  its side is not detected, and such a city is placed on the route.
\<close>

theorem sort_northerly_panics_iff:
  "sort_northerly cities start_lat start_long = None \<longleftrightarrow>
     (2 \<le> length (filter (same_side start_long) cities) \<and>
        (\<exists>c\<in>set cities. same_side start_long c \<and> is_nan (latitude c))) \<or>
     (2 \<le> length (filter (Not \<circ> same_side start_long) cities) \<and>
        (\<exists>c\<in>set cities. \<not> same_side start_long c \<and> is_nan (latitude c)))"
proof -
  let ?S = "filter (same_side start_long) cities" and ?O = "filter (Not \<circ> same_side start_long) cities"
  have S: "sort_by (\<lambda>a b. partial_cmp (latitude a) (latitude b)) ?S = None \<longleftrightarrow>
     2 \<le> length ?S \<and> (\<exists>c\<in>set ?S. is_nan (latitude c))"
    by (rule sort_by_None_iff) (rule fails_on_asc)
  have O: "sort_by (\<lambda>a b. partial_cmp (latitude b) (latitude a)) ?O = None \<longleftrightarrow>
     2 \<le> length ?O \<and> (\<exists>c\<in>set ?O. is_nan (latitude c))"
    by (rule sort_by_None_iff) (rule fails_on_desc)
  have "sort_northerly cities start_lat start_long = None \<longleftrightarrow>
     sort_by (\<lambda>a b. partial_cmp (latitude a) (latitude b)) ?S = None \<or>
     sort_by (\<lambda>a b. partial_cmp (latitude b) (latitude a)) ?O = None"
    by (simp add: sort_northerly_def split: option.split prod.split)
  with S O show ?thesis by auto
qed

lemma sorted_lat_filter: "sorted (map lat (filter P (sort_key lat xs)))"
  by (rule sorted_filter_map) simp

subsection \<open>The route north\<close>

lemma north_offset_poles:
  assumes "-90 \<le> phi" and "phi < 90"
  shows "north_offset phi start_long NORTH_POLE = 90 - phi"
    and "north_offset phi start_long SOUTH_POLE = 270 - phi"
  using assms by (simp_all add: north_offset_def NORTH_POLE_def SOUTH_POLE_def)

subsection \<open>Properties of the northerly sort\<close>

lemma sort_northerly_mset:
  assumes "sort_northerly cities start_lat start_long = Some r"
  shows "mset r = mset cities + {#NORTH_POLE, SOUTH_POLE#}"
proof -
  let ?S = "filter (same_side start_long) cities" and ?O = "filter (Not \<circ> same_side start_long) cities"
  let ?P = "\<lambda>city. f64_lt start_lat (latitude city)"
  obtain ss os where
    ss: "sort_by (\<lambda>a b. partial_cmp (latitude a) (latitude b)) ?S = Some ss" and
    os: "sort_by (\<lambda>a b. partial_cmp (latitude b) (latitude a)) ?O = Some os" and
    r: "r = filter ?P ss @ [NORTH_POLE] @ os @ [SOUTH_POLE] @ filter (Not \<circ> ?P) ss"
    using assms by (auto simp: sort_northerly_def split: option.splits)
  have "mset r = (mset (filter ?P ss) + mset (filter (Not \<circ> ?P) ss)) + mset os + {#NORTH_POLE, SOUTH_POLE#}"
    by (simp add: r ac_simps)
  also have "\<dots> = mset cities + {#NORTH_POLE, SOUTH_POLE#}"
    using sort_by_mset [OF ss] sort_by_mset [OF os] mset_filter_partition [of "same_side start_long" cities]
    by (simp add: mset_filter_partition)
  finally show ?thesis .
qed

text \<open>
  C3: whenever \<open>sort_northerly\<close> returns, NaN coordinates included, its result
  is the cities of the reference's side north of the reference latitude in
  ascending latitude, the North Pole, the cities of the opposite side in
  descending latitude, the South Pole, and the remaining cities of the
  reference's side in ascending latitude.
\<close>

theorem sort_northerly_poles:
  assumes "sort_northerly cities start_lat start_long = Some r"
  shows "\<exists>n m s. r = n @ [NORTH_POLE] @ m @ [SOUTH_POLE] @ s
    \<and> mset (n @ s) = mset (filter (same_side start_long) cities)
    \<and> mset m = mset (filter (Not \<circ> same_side start_long) cities)
    \<and> (\<forall>c\<in>set n. f64_lt start_lat (latitude c)) \<and> (\<forall>c\<in>set s. \<not> f64_lt start_lat (latitude c))
    \<and> sorted (map lat n) \<and> sorted (map lat s) \<and> sorted (map (\<lambda>c. - lat c) m)"
proof -
  let ?S = "filter (same_side start_long) cities" and ?O = "filter (Not \<circ> same_side start_long) cities"
  let ?P = "\<lambda>city. f64_lt start_lat (latitude city)"
  obtain ss os where
    ss: "sort_by (\<lambda>a b. partial_cmp (latitude a) (latitude b)) ?S = Some ss" and
    os: "sort_by (\<lambda>a b. partial_cmp (latitude b) (latitude a)) ?O = Some os" and
    r: "r = filter ?P ss @ [NORTH_POLE] @ os @ [SOUTH_POLE] @ filter (Not \<circ> ?P) ss"
    using assms by (auto simp: sort_northerly_def split: option.splits)
  have "mset (filter ?P ss @ filter (Not \<circ> ?P) ss) = mset ?S"
    using mset_filter_partition [of ?P ss] sort_by_mset [OF ss] by simp
  moreover have "mset os = mset ?O" by (rule sort_by_mset [OF os])
  moreover have "sorted (map lat ss)" by (rule sort_by_sorted_asc [OF ss])
  then have "sorted (map lat (filter ?P ss))" and "sorted (map lat (filter (Not \<circ> ?P) ss))"
    by (simp_all add: sorted_filter_map)
  moreover have "sorted (map (\<lambda>c. - lat c) os)" by (rule sort_by_sorted_desc [OF os])
  ultimately show ?thesis using r by fastforce
qed

text \<open>
  On the reference's side, the reference city is the last of the cities at or
  south of its latitude, when no other city has its latitude.
\<close>

lemma south_ends_with_reference:
  assumes "no_nan_key latitude cities" and "c \<in> set cities"
    and "latitude c = Num phi" and "longitude c = start_long"
    and "\<forall>d\<in>set cities. latitude d = latitude c \<longrightarrow> d = c"
  shows "filter (\<lambda>c. \<not> phi < lat c) (same_sorted start_long cities) \<noteq> [] \<and>
         last (filter (\<lambda>c. \<not> phi < lat c) (same_sorted start_long cities)) = c"
proof -
  let ?south = "filter (\<lambda>c. \<not> phi < lat c) (same_sorted start_long cities)"
  have "same_side start_long c" using same_side_self [of c] assms(4) by simp
  with assms(2,3) have c_in: "c \<in> set ?south" by simp
  have max: "\<forall>y\<in>set ?south. y \<noteq> c \<longrightarrow> lat y < lat c"
  proof (intro ballI impI)
    fix y assume y: "y \<in> set ?south" "y \<noteq> c"
    then have y_in: "y \<in> set cities" and le: "lat y \<le> phi" by auto
    have "lat y \<noteq> phi"
    proof
      assume "lat y = phi"
      with no_nan_key_Num [OF assms(1) y_in] assms(3) have "latitude y = latitude c" by simp
      with assms(5) y_in y(2) show False by blast
    qed
    with le assms(3) show "lat y < lat c" by simp
  qed
  have "last ?south = c"
    by (rule sorted_unique_max_last [OF sorted_lat_filter c_in max])
  moreover from c_in have "?south \<noteq> []" by (metis empty_iff empty_set)
  ultimately show ?thesis by simp
qed

text \<open>
  C2: when the reference city is one of the cities, the reference point is its
  position, and no other city has its latitude, \<open>sort_northerly\<close> returns a
  sequence whose last element is the reference city.
\<close>

theorem sort_northerly_reference_last:
  assumes "no_nan_key latitude cities" and "c \<in> set cities"
    and "latitude c = Num phi" and "longitude c = start_long"
    and "\<forall>d\<in>set cities. latitude d = latitude c \<longrightarrow> d = c"
  shows "\<exists>r. sort_northerly cities (Num phi) start_long = Some r \<and> last r = c"
  using south_ends_with_reference [OF assms]
  by (simp add: sort_northerly_Num [OF assms(1)])

text \<open>
  C5: on latitudes of \<open>[-90, 90]\<close> and a reference latitude below the North
  Pole, \<open>sort_northerly\<close> returns the cities it is given and the two poles,
  ordered by how far along the pole-to-pole flight each one lies: the sequence is
  the order in which the flight north meets them.
\<close>

theorem sort_northerly_route:
  assumes "no_nan_key latitude cities"
    and "\<forall>c\<in>set cities. -90 \<le> lat c \<and> lat c \<le> 90" and "-90 \<le> phi" and "phi < 90"
  shows "\<exists>r. sort_northerly cities (Num phi) start_long = Some r
    \<and> mset r = mset cities + {#NORTH_POLE, SOUTH_POLE#}
    \<and> sorted (map (north_offset phi start_long) r)"
proof -
  let ?g = "north_offset phi start_long"
  let ?S = "same_sorted start_long cities" and ?O = "opp_sorted start_long cities"
  let ?N = "filter (\<lambda>c. phi < lat c) ?S" and ?Z = "filter (\<lambda>c. \<not> phi < lat c) ?S"
  have range: "\<And>x. x \<in> set cities \<Longrightarrow> -90 \<le> lat x \<and> lat x \<le> 90"
    using assms(2) by blast
  have N: "sorted (map ?g ?N)"
    by (rule sorted_map_mono_on [OF sorted_lat_filter]) (auto simp: north_offset_def)
  have Z: "sorted (map ?g ?Z)"
    by (rule sorted_map_mono_on [OF sorted_lat_filter]) (auto simp: north_offset_def)
  have O: "sorted (map ?g ?O)"
    by (rule sorted_map_mono_on [OF sorted_sort_key]) (auto simp: north_offset_def)
  have N_le: "\<forall>x\<in>set ?N. ?g x \<le> 90 - phi"
    using range by (auto simp: north_offset_def)
  have O_in: "\<forall>x\<in>set ?O. 90 - phi \<le> ?g x \<and> ?g x \<le> 270 - phi"
    using range by (fastforce simp: north_offset_def)
  have Z_ge: "\<forall>x\<in>set ?Z. 270 - phi \<le> ?g x"
    using range by (fastforce simp: north_offset_def)
  have sorted: "sorted (map ?g (?N @ [NORTH_POLE] @ ?O @ [SOUTH_POLE] @ ?Z))"
    by (rule sorted_blocks_markers [OF N O Z N_le _ O_in])
       (simp_all add: north_offset_poles [OF assms(3,4)] Z_ge)
  have "mset (?N @ [NORTH_POLE] @ ?O @ [SOUTH_POLE] @ ?Z) =
      (mset ?N + mset ?Z) + mset ?O + {#NORTH_POLE, SOUTH_POLE#}"
    by (simp add: ac_simps)
  also have "\<dots> = mset cities + {#NORTH_POLE, SOUTH_POLE#}"
    using mset_filter_partition [of "\<lambda>c. phi < lat c" ?S]
      mset_filter_partition [of "same_side start_long" cities]
    by (simp add: comp_def)
  finally show ?thesis
    using sorted by (simp add: sort_northerly_Num [OF assms(1)])
qed

end
