(* ===== verification/Narrative.thy ===== *)
theory Narrative
  imports Bands Ranking Directional
begin

text \<open>
  The text of \<open>src/src/src/lib.rs\<close>: the two pipelines \<open>latitude_cities\<close>
  (band, ranking, easterly sort) and \<open>longitude_cities\<close> (band, ranking,
  northerly sort), the sentences \<open>latitude_text\<close> and \<open>longitude_text\<close> built
  from them, the degree-and-minute rendering of coordinates, and
  \<open>location_text\<close>, the whole post.  Every function that sorts may panic; its
  model returns \<open>None\<close> then.  \<open>Itertools::join\<close> is \<open>join\<close>.  Strings are
  byte strings: the degree sign is its two UTF-8 bytes.
\<close>

subsection \<open>Joining names\<close>

fun join :: "string \<Rightarrow> string list \<Rightarrow> string" where
  "join sep [] = []"
| "join sep [x] = x"
| "join sep (x # y # xs) = x @ sep @ join sep (y # xs)"

subsection \<open>The two sentences\<close>

definition NUM_CITIES_LATITUDE :: nat where
  "NUM_CITIES_LATITUDE = 9"

definition NUM_CITIES_LONGITUDE :: nat where
  "NUM_CITIES_LONGITUDE = 11"

definition latitude_cities :: "catalog \<Rightarrow> f64 \<Rightarrow> f64 \<Rightarrow> city list option" where
  "latitude_cities data latitude' longitude' =
     (let cities = same_latitude data latitude'
      in case top_by_population cities of
           None \<Rightarrow> None
         | Some cities \<Rightarrow> sort_easterly cities longitude')"

definition latitude_text :: "catalog \<Rightarrow> city \<Rightarrow> string option" where
  "latitude_text data city =
     (case latitude_cities data (latitude city) (longitude city) of
        None \<Rightarrow> None
      | Some cities \<Rightarrow>
          Some (''If you fly along this latitude in an easterly direction, you will look down on ''
                @ join '', '' (map display_city (take NUM_CITIES_LATITUDE cities))
                @ '', '' @ display_city city @ ''.''))"

definition longitude_cities :: "catalog \<Rightarrow> f64 \<Rightarrow> f64 \<Rightarrow> city list option" where
  "longitude_cities data latitude' longitude' =
     (let cities = same_longitude data longitude'
      in case top_by_population cities of
           None \<Rightarrow> None
         | Some cities \<Rightarrow> sort_northerly cities latitude' longitude')"

definition longitude_text :: "catalog \<Rightarrow> city \<Rightarrow> string option" where
  "longitude_text data city =
     (case longitude_cities data (latitude city) (longitude city) of
        None \<Rightarrow> None
      | Some cities \<Rightarrow>
          Some (''If you fly along this longitude starting north, you will look down on ''
                @ join '', '' (map display_city (take NUM_CITIES_LONGITUDE cities))
                @ '', '' @ display_city city @ ''.''))"

subsection \<open>Degrees and minutes\<close>

definition decimal_to_degrees_minutes :: "f64 \<Rightarrow> f64 \<times> f64" where
  "decimal_to_degrees_minutes coord =
     (f64_floor (f64_abs coord),
      f64_floor (f64_rem (f64_mul (f64_abs coord) (Num 60)) (Num 60)))"

text \<open>The UTF-8 bytes of the degree sign and the apostrophe.\<close>

definition degree_sign :: string where
  "degree_sign = [CHR 0xC2, CHR 0xB0]"

definition apostrophe :: string where
  "apostrophe = [CHR 0x27]"

definition latitude_in_degrees :: "f64 \<Rightarrow> string" where
  "latitude_in_degrees coord =
     (let dir = (if f64_lt (Num 0) coord then ''N'' else ''S'');
          (deg, min) = decimal_to_degrees_minutes coord
      in display_whole deg @ degree_sign @ display_whole min @ apostrophe @ dir)"

definition longitude_in_degrees :: "f64 \<Rightarrow> string" where
  "longitude_in_degrees coord =
     (let dir = (if f64_lt (Num 0) coord then ''E'' else ''W'');
          (deg, min) = decimal_to_degrees_minutes coord
      in display_whole deg @ degree_sign @ display_whole min @ apostrophe @ dir)"

subsection \<open>The post\<close>

text \<open>
  \<open>location_text\<close>: four lines.  The arguments of \<open>format!\<close> are evaluated in
  order, so a panic of \<open>latitude_text\<close> comes first.
\<close>

definition location_text :: "catalog \<Rightarrow> city \<Rightarrow> string option" where
  "location_text data city =
     (case latitude_text data city of
        None \<Rightarrow> None
      | Some lat_text \<Rightarrow>
          (case longitude_text data city of
             None \<Rightarrow> None
           | Some long_text \<Rightarrow>
               Some (''You are now in '' @ display_city city @ '', '' @ province city @ '', ''
                     @ country city @ ''\<newline>''
                     @ latitude_in_degrees (latitude city) @ '' ''
                     @ longitude_in_degrees (longitude city) @ ''\<newline>''
                     @ lat_text @ ''\<newline>'' @ long_text)))"

subsection \<open>Facts about joining\<close>

lemma join_snoc:
  "xs \<noteq> [] \<Longrightarrow> join sep (xs @ [x]) = join sep xs @ sep @ x"
  by (induction sep xs rule: join.induct) auto

lemma take_butlast_last:
  "length xs = Suc n \<Longrightarrow> take n xs = butlast xs"
  by (simp add: butlast_conv_take)

end
