(* ===== verification/Runtime.thy ===== *)
theory Runtime
  imports Narrative
begin

text \<open>
  The process-wide state of \<open>src/src/src/lib.rs\<close> and its two entry points.
  \<open>DATA\<close> is a \<open>lazy_static\<close>: the first access runs
  \<open>data_loader::load_data().unwrap()\<close>; a failed initialisation panics and
  leaves the cell poisoned, so every later access panics too; a successful one
  fixes the catalog for the rest of the process.  \<open>random_location\<close> picks a
  city with \<open>DATA.choose(&mut rng).unwrap()\<close> and renders it;
  \<open>location_text\<close> renders a given city, reaching \<open>DATA\<close> through the band
  filters.  The process is a state machine over the cell and the lines the
  loader printed; its steps are the entry-point calls.  The random generator is
  the index it draws: \<open>choose\<close> takes the element at that index modulo the length.
\<close>

subsection \<open>The lazy catalog\<close>

datatype data_cell = Uninit | Ready catalog | Poisoned

record process =
  cell :: data_cell
  stdout :: "load_msg list"

definition init_process :: process where
  "init_process = \<lparr>cell = Uninit, stdout = []\<rparr>"

text \<open>
  Dereferencing \<open>DATA\<close>: the catalog or a panic (\<open>None\<close>), and the next
  state.  Only the first access runs the loader and prints its lines.
\<close>

definition force_DATA :: "csv_file \<Rightarrow> process \<Rightarrow> catalog option \<times> process" where
  "force_DATA csv p =
     (case cell p of
        Ready data \<Rightarrow> (Some data, p)
      | Poisoned \<Rightarrow> (None, p)
      | Uninit \<Rightarrow>
          (let (msgs, res) = load_data csv
           in case res of
                Inl _ \<Rightarrow> (None, p\<lparr>cell := Poisoned, stdout := stdout p @ msgs\<rparr>)
              | Inr data \<Rightarrow> (Some data, p\<lparr>cell := Ready data, stdout := stdout p @ msgs\<rparr>)))"

subsection \<open>Entry points\<close>

text \<open>\<open>IndexedRandom::choose\<close>: \<open>None\<close> on an empty slice.\<close>

definition choose_random :: "'a list \<Rightarrow> nat \<Rightarrow> 'a option" where
  "choose_random xs r = (if xs = [] then None else Some (xs ! (r mod length xs)))"

definition random_location :: "catalog \<Rightarrow> nat \<Rightarrow> string option" where
  "random_location data r =
     (case choose_random data r of
        None \<Rightarrow> None
      | Some city \<Rightarrow> location_text data city)"

datatype request = RandomLocation nat | LocationText city

text \<open>One call of an entry point: its result (\<open>None\<close> for a panic) and the next state.\<close>

definition step :: "csv_file \<Rightarrow> process \<Rightarrow> request \<Rightarrow> string option \<times> process" where
  "step csv p req =
     (let (d, p') = force_DATA csv p
      in case d of
           None \<Rightarrow> (None, p')
         | Some data \<Rightarrow>
             (case req of
                RandomLocation r \<Rightarrow> (random_location data r, p')
              | LocationText city \<Rightarrow> (location_text data city, p')))"

inductive reachable :: "csv_file \<Rightarrow> process \<Rightarrow> bool" for csv where
  start: "reachable csv init_process"
| call: "reachable csv p \<Longrightarrow> reachable csv (snd (step csv p req))"

text \<open>What a reachable state looks like: nothing loaded yet, or the loader ran once.\<close>

definition process_inv :: "csv_file \<Rightarrow> process \<Rightarrow> bool" where
  "process_inv csv p \<longleftrightarrow>
     (case cell p of
        Uninit \<Rightarrow> stdout p = []
      | Poisoned \<Rightarrow> stdout p = fst (load_data csv) \<and> (\<exists>e. snd (load_data csv) = Inl e)
      | Ready data \<Rightarrow> stdout p = fst (load_data csv) \<and> snd (load_data csv) = Inr data)"

text \<open>
  The contract of the two entry points without the lazy cell: load the catalog
  first, panic if that fails, answer the request on the catalog otherwise.
\<close>

definition eager_call :: "csv_file \<Rightarrow> request \<Rightarrow> string option" where
  "eager_call csv req =
     (case snd (load_data csv) of
        Inl _ \<Rightarrow> None
      | Inr data \<Rightarrow>
          (case req of
             RandomLocation r \<Rightarrow> random_location data r
           | LocationText city \<Rightarrow> location_text data city))"

subsection \<open>Facts about a step\<close>

lemma force_DATA_Ready [simp]: "cell p = Ready data \<Longrightarrow> force_DATA csv p = (Some data, p)"
  by (simp add: force_DATA_def)

lemma force_DATA_Poisoned [simp]: "cell p = Poisoned \<Longrightarrow> force_DATA csv p = (None, p)"
  by (simp add: force_DATA_def)

lemma step_state: "snd (step csv p req) = snd (force_DATA csv p)"
  by (simp add: step_def split_beta split: option.split request.split)

lemma force_DATA_inv:
  "process_inv csv p \<Longrightarrow> process_inv csv (snd (force_DATA csv p))"
  by (auto simp: force_DATA_def process_inv_def split_beta
           split: data_cell.splits sum.splits)

lemma reachable_inv: "reachable csv p \<Longrightarrow> process_inv csv p"
proof (induction rule: reachable.induct)
  case start
  then show ?case by (simp add: process_inv_def init_process_def)
next
  case (call p req)
  then show ?case by (simp add: step_state force_DATA_inv)
qed

lemma step_Ready:
  "cell p = Ready data \<Longrightarrow>
     step csv p req =
       (case req of
          RandomLocation r \<Rightarrow> random_location data r
        | LocationText city \<Rightarrow> location_text data city, p)"
  by (simp add: step_def split: request.split)

lemma reachable_Ready:
  assumes "reachable csv p" and "cell p = Ready data"
  shows "snd (load_data csv) = Inr data" and "stdout p = fst (load_data csv)" and "data \<noteq> []"
proof -
  from assms(1) have "process_inv csv p" by (rule reachable_inv)
  with assms(2) show ld: "snd (load_data csv) = Inr data" and "stdout p = fst (load_data csv)"
    by (simp_all add: process_inv_def)
  from ld show "data \<noteq> []" by (rule load_data_nonempty)
qed

subsection \<open>Properties of the process\<close>

text \<open>
  C21: in every reachable state where \<open>DATA\<close> is initialised, its catalog is
  exactly the one \<open>load_data\<close> returned, it is not empty, and the loader's lines
  have been printed exactly once.
\<close>

theorem reachable_catalog_loaded_once:
  assumes "reachable csv p" and "cell p = Ready data"
  shows "snd (load_data csv) = Inr data \<and> data \<noteq> [] \<and> stdout p = fst (load_data csv)"
  using reachable_Ready [OF assms] by blast

text \<open>
  C22: in a reachable state with \<open>DATA\<close> initialised, \<open>random_location\<close> never
  reaches the panic of \<open>choose(..).unwrap()\<close>: it renders the catalog city at the
  index the generator drew, which exists.
\<close>

theorem random_location_picks_catalog_city:
  assumes "reachable csv p" and "cell p = Ready data"
  shows "r mod length data < length data \<and>
    fst (step csv p (RandomLocation r)) = location_text data (data ! (r mod length data))"
proof -
  from reachable_Ready [OF assms] have "data \<noteq> []" by simp
  with assms(2) show ?thesis
    by (simp add: step_Ready random_location_def choose_random_def)
qed

text \<open>
  C23: when the CSV file cannot be opened or has no valid row, every call of
  either entry point panics, in every reachable state.
\<close>

theorem load_failure_every_call_panics:
  assumes "reachable csv p" and "snd (load_data csv) = Inl err"
  shows "fst (step csv p req) = None"
proof -
  from assms(1) have inv: "process_inv csv p" by (rule reachable_inv)
  show ?thesis
  proof (cases "cell p")
    case Uninit
    with assms(2) show ?thesis by (simp add: step_def force_DATA_def split_beta)
  next
    case (Ready data)
    with inv assms(2) show ?thesis by (simp add: process_inv_def)
  next
    case Poisoned
    then show ?thesis by (simp add: step_def)
  qed
qed

text \<open>
  C30: the lazily initialised \<open>DATA\<close> is invisible to callers: in every
  reachable state, each call of an entry point returns what \<open>eager_call\<close>
  returns, the specification that loads the catalog before answering.  The
  process with its cell refines the pure function.
\<close>

theorem lazy_DATA_refines_eager:
  assumes "reachable csv p"
  shows "fst (step csv p req) = eager_call csv req"
proof -
  from assms have inv: "process_inv csv p" by (rule reachable_inv)
  show ?thesis
  proof (cases "cell p")
    case Uninit
    then show ?thesis
      by (simp add: step_def force_DATA_def eager_call_def split_beta split: sum.split request.split)
  next
    case (Ready data)
    with inv show ?thesis
      by (simp add: step_Ready eager_call_def process_inv_def split: request.split)
  next
    case Poisoned
    with inv show ?thesis
      by (auto simp: step_def eager_call_def process_inv_def)
  qed
qed

end
