(* ===== verification/Toot_IO.thy ===== *)
theory Toot_IO
  imports Runtime
begin

text \<open>
  The vocabulary of the two \<open>toot\<close> binaries, \<open>src/src/bin/toot.rs\<close> (version 1) and
  \<open>src/src/src/bin/toot.rs\<close> (version 2).  Each \<open>main\<close> loads the \<open>.env\<close>
  file, then either posts with the credentials of the environment
  (\<open>from_configuration\<close>) or registers a new client and asks for an
  authorisation code on stdin (\<open>register_and_post\<close>); both post the text of
  \<open>random_location\<close>.  A run is a value of \<open>'a io\<close>: the console output in
  order and either a panic message or the result.  The Mastodon server, reached
  through the \<open>mammut\<close> crate, is the interface \<open>service\<close>: the answer of
  each of its calls.  \<open>{:#?}\<close> dumps are events that carry the value dumped,
  since their layout is that of derived \<open>Debug\<close> implementations outside the
  repository.
\<close>

subsection \<open>Runs: output and panics\<close>

record mastodon_data =
  base :: string
  client_id :: string
  client_secret :: string
  redirect :: string
  token :: string

datatype out =
    Line string
  | Loader load_msg
  | DumpData mastodon_data
  | DumpStatus string
  | Posted string

type_synonym 'a io = "out list \<times> (string + 'a)"

definition io_return :: "'a \<Rightarrow> 'a io" where
  "io_return a = ([], Inr a)"

definition io_print :: "out \<Rightarrow> unit io" where
  "io_print x = ([x], Inr ())"

definition io_bind :: "'a io \<Rightarrow> ('a \<Rightarrow> 'b io) \<Rightarrow> 'b io" where
  "io_bind m f =
     (case snd m of
        Inl msg \<Rightarrow> (fst m, Inl msg)
      | Inr a \<Rightarrow> (fst m @ fst (f a), snd (f a)))"

text \<open>\<open>Result::expect(msg)\<close>, and the \<open>match .. Err(e) => panic!(\"msg: {}\", e)\<close> of version 2.\<close>

definition expect :: "string \<Rightarrow> string + 'a \<Rightarrow> 'a io" where
  "expect msg r = (case r of Inl e \<Rightarrow> ([], Inl (msg @ '': '' @ e)) | Inr a \<Rightarrow> ([], Inr a))"

subsection \<open>The environment\<close>

text \<open>
  \<open>dotenv::dotenv().ok()\<close>: the variables of the \<open>.env\<close> file (\<open>None\<close> when it
  cannot be read, an error the call ignores) are added to the process
  environment without overriding a variable that is already set; of two lines
  with the same key the first one sets it.
\<close>

definition dotenv :: "(string \<rightharpoonup> string) \<Rightarrow> (string \<times> string) list option \<Rightarrow> string \<rightharpoonup> string" where
  "dotenv penv file =
     (case file of
        None \<Rightarrow> penv
      | Some lines \<Rightarrow> (\<lambda>k. case penv k of Some v \<Rightarrow> Some v | None \<Rightarrow> map_of lines k))"

definition env :: "(string \<rightharpoonup> string) \<Rightarrow> string \<Rightarrow> string io" where
  "env vars s =
     (case vars s of
        None \<Rightarrow> ([], Inl (''must have `'' @ s @ ''` definded''))
      | Some v \<Rightarrow> io_return v)"

subsection \<open>The Mastodon server\<close>

text \<open>
  The answer of each call of the server, \<open>Inl\<close> an error.  \<open>read_line\<close> is
  the line typed on stdin, with its line break.
\<close>

record service =
  registration_new :: "string \<Rightarrow> string + unit"
  register :: "string + unit"
  authorise :: "string + string"
  read_line :: "string + string"
  create_access_token :: "string \<Rightarrow> string + mastodon_data"
  from_data :: "mastodon_data \<Rightarrow> string + unit"
  new_status :: "mastodon_data \<Rightarrow> string \<Rightarrow> string + unit"

definition OOB :: string where
  "OOB = ''urn:ietf:wg:oauth:2.0:oob''"

text \<open>
  \<open>random_location()\<close> in the fresh process of a run: the lines the loader
  prints on the first access of \<open>DATA\<close>, and the text or a panic.
\<close>

definition call_random_location :: "csv_file \<Rightarrow> nat \<Rightarrow> string io" where
  "call_random_location csv r =
     (let (res, p) = step csv init_process (RandomLocation r)
      in (map Loader (stdout p),
          case res of None \<Rightarrow> Inl ''random_location panicked'' | Some s \<Rightarrow> Inr s))"

text \<open>
  \<open>str::trim\<close> of version 2 on the ASCII bytes of a line: the leading and
  trailing characters with the Unicode property White_Space among them,
  tab, line feed, vertical tab, form feed, carriage return and space.
\<close>

definition is_whitespace :: "char \<Rightarrow> bool" where
  "is_whitespace c \<longleftrightarrow> (let n = (of_char c :: nat) in n = 32 \<or> (9 \<le> n \<and> n \<le> 13))"

definition trim :: "string \<Rightarrow> string" where
  "trim s = rev (dropWhile is_whitespace (rev (dropWhile is_whitespace s)))"

text \<open>A string with no whitespace at either end.\<close>

definition trimmed :: "string \<Rightarrow> bool" where
  "trimmed t \<longleftrightarrow> t = [] \<or> (\<not> is_whitespace (hd t) \<and> \<not> is_whitespace (last t))"

text \<open>The statuses a run posted, in order.\<close>

fun posts :: "out list \<Rightarrow> string list" where
  "posts [] = []"
| "posts (Posted s # xs) = s # posts xs"
| "posts (_ # xs) = posts xs"

subsection \<open>Laws of runs\<close>

lemma io_bind_simps [simp]:
  "io_bind (xs, Inl msg) f = (xs, Inl msg)"
  "io_bind (xs, Inr a) f = (xs @ fst (f a), snd (f a))"
  by (simp_all add: io_bind_def)

lemma io_unit_simps [simp]:
  "io_return a = ([], Inr a)"
  "io_print x = ([x], Inr ())"
  "expect msg (Inl e) = ([], Inl (msg @ '': '' @ e))"
  "expect msg (Inr a) = ([], Inr a)"
  by (simp_all add: io_return_def io_print_def expect_def)

lemma env_simps [simp]:
  "vars s = None \<Longrightarrow> env vars s = ([], Inl (''must have `'' @ s @ ''` definded''))"
  "vars s = Some v \<Longrightarrow> env vars s = ([], Inr v)"
  by (simp_all add: env_def)

lemma posts_append [simp]: "posts (xs @ ys) = posts xs @ posts ys"
  by (induction xs rule: posts.induct) auto

lemma posts_map_Loader [simp]: "posts (map Loader msgs) = []"
  by (induction msgs) auto

subsection \<open>The library call\<close>

lemma call_random_location_output:
  "fst (call_random_location csv r) = map Loader (fst (load_data csv))"
  by (simp add: call_random_location_def step_state force_DATA_def init_process_def split_beta
      split: sum.split)

lemma call_random_location_ok:
  assumes "snd (call_random_location csv r) = Inr s"
  shows "\<exists>data. snd (load_data csv) = Inr data \<and> data \<noteq> [] \<and>
           location_text data (data ! (r mod length data)) = Some s"
proof (cases "snd (load_data csv)")
  case (Inl e)
  with assms show ?thesis
    by (simp add: call_random_location_def step_def force_DATA_def init_process_def split_beta)
next
  case (Inr data)
  then have ne: "data \<noteq> []" by (rule load_data_nonempty)
  with Inr assms show ?thesis
    by (simp add: call_random_location_def step_def force_DATA_def init_process_def split_beta
        random_location_def choose_random_def split: option.splits)
qed

subsection \<open>Trimming\<close>

lemma trim_unique:
  assumes "\<forall>c\<in>set w1. is_whitespace c" and "\<forall>c\<in>set w2. is_whitespace c" and "trimmed t"
  shows "trim (w1 @ t @ w2) = t"
proof (cases "t = []")
  case True
  have d: "dropWhile is_whitespace (w1 @ w2) = []"
    using dropWhile_prefix [of "w1 @ w2" is_whitespace "[]"] assms(1,2) by simp
  show ?thesis
    unfolding trim_def True by (simp only: append_Nil d) simp
next
  case False
  with assms(3) have h: "\<not> is_whitespace (hd t)" and l: "\<not> is_whitespace (last t)"
    by (simp_all add: trimmed_def)
  from False h have "dropWhile is_whitespace (w1 @ t @ w2) = t @ w2"
    by (intro dropWhile_prefix assms(1)) simp
  moreover from False l have "dropWhile is_whitespace (rev w2 @ rev t) = rev t"
    by (intro dropWhile_prefix) (simp_all add: assms(2) hd_rev)
  ultimately show ?thesis by (simp add: trim_def)
qed

lemma trim_line: "trimmed code \<Longrightarrow> trim (code @ ''\<newline>'') = code"
  using trim_unique [of "[]" "''\<newline>''" code] by (simp add: is_whitespace_def)

end
