(* ===== verification/Toot.thy ===== *)
theory Toot
  imports Toot_IO
begin

text \<open>
  The two \<open>main\<close> functions of the \<open>toot\<close> binaries, each with its
  \<open>register_and_post\<close> and \<open>from_configuration\<close>, one definition per Rust
  function.  Version 2 differs from version 1 in four places: \<open>Registration::new\<close>
  and \<open>Mastodon::from_data\<close> cannot fail, two success lines are printed, and the
  authorisation code is trimmed before it is sent.  The theory proves what a run
  posts, when it fails, and where the two versions agree and differ.
\<close>

subsection \<open>Version 1: \<open>src/src/bin/toot.rs\<close>\<close>

definition post_v1 :: "service \<Rightarrow> mastodon_data \<Rightarrow> string \<Rightarrow> unit io" where
  "post_v1 svc d status =
     (case new_status svc d status of
        Inl e \<Rightarrow> ([], Inl (''Could not post status: '' @ e))
      | Inr _ \<Rightarrow> ([Posted status], Inr ()))"

definition register_and_post_v1 ::
  "(string \<rightharpoonup> string) \<Rightarrow> csv_file \<Rightarrow> nat \<Rightarrow> service \<Rightarrow> unit io" where
  "register_and_post_v1 vars csv r svc =
     io_bind (env vars ''BASE'') (\<lambda>b.
     io_bind (expect ''Registration creation failed'' (registration_new svc b)) (\<lambda>_.
     io_bind (expect ''Register failed'' (register svc)) (\<lambda>_.
     io_bind (expect ''Registration authorize failed'' (authorise svc)) (\<lambda>url.
     io_bind (io_print (Line (''Please visit '' @ url @ '', authorise and enter the code it gives you: ''))) (\<lambda>_.
     io_bind (expect ''Reading code failed'' (read_line svc)) (\<lambda>code.
     io_bind (expect ''Creating access token failed'' (create_access_token svc code)) (\<lambda>d.
     io_bind (io_print (DumpData d)) (\<lambda>_.
     io_bind (call_random_location csv r) (\<lambda>status.
     io_bind (io_print (DumpStatus status)) (\<lambda>_.
     io_bind (post_v1 svc d status) (\<lambda>_.
     io_print (Line ''Done!''))))))))))))"

definition from_configuration_v1 ::
  "(string \<rightharpoonup> string) \<Rightarrow> csv_file \<Rightarrow> nat \<Rightarrow> service \<Rightarrow> unit io" where
  "from_configuration_v1 vars csv r svc =
     io_bind (env vars ''BASE'') (\<lambda>b.
     io_bind (env vars ''CLIENT_ID'') (\<lambda>ci.
     io_bind (env vars ''CLIENT_SECRET'') (\<lambda>cs.
     io_bind (env vars ''TOKEN'') (\<lambda>t.
     (let d = \<lparr>base = b, client_id = ci, client_secret = cs, redirect = OOB, token = t\<rparr>
      in io_bind (expect ''Could not create Mastodon instance from data'' (from_data svc d)) (\<lambda>_.
         io_bind (call_random_location csv r) (\<lambda>status.
         io_bind (io_print (Line (''Posting '' @ status))) (\<lambda>_.
         io_bind (io_print (DumpStatus status)) (\<lambda>_.
         io_bind (post_v1 svc d status) (\<lambda>_.
         io_print (Line ''Done!'')))))))))))"

definition BANNER_CONFIGURED :: string where
  "BANNER_CONFIGURED = ''>>>>> About to toot using `.env` file ... <<<<<<<<''"

definition BANNER_REGISTER :: string where
  "BANNER_REGISTER = ''>>>>> About to toot from new client registration ... <<<<<<<<''"

definition main_v1 ::
  "(string \<rightharpoonup> string) \<Rightarrow> (string \<times> string) list option \<Rightarrow> csv_file \<Rightarrow> nat \<Rightarrow> service \<Rightarrow> unit io" where
  "main_v1 penv file csv r svc =
     (let vars = dotenv penv file
      in if vars ''CLIENT_ID'' \<noteq> None
         then io_bind (io_print (Line BANNER_CONFIGURED)) (\<lambda>_. from_configuration_v1 vars csv r svc)
         else io_bind (io_print (Line BANNER_REGISTER)) (\<lambda>_. register_and_post_v1 vars csv r svc))"

subsection \<open>Version 2: \<open>src/src/src/bin/toot.rs\<close>\<close>

definition post_v2 :: "service \<Rightarrow> mastodon_data \<Rightarrow> string \<Rightarrow> unit io" where
  "post_v2 svc d status =
     (case new_status svc d status of
        Inl e \<Rightarrow> ([], Inl (''Could not post status: '' @ e))
      | Inr _ \<Rightarrow> ([Posted status, Line ''Status posted successfully''], Inr ()))"

definition register_and_post_v2 ::
  "(string \<rightharpoonup> string) \<Rightarrow> csv_file \<Rightarrow> nat \<Rightarrow> service \<Rightarrow> unit io" where
  "register_and_post_v2 vars csv r svc =
     io_bind (env vars ''BASE'') (\<lambda>b.
     io_bind (expect ''Register failed'' (register svc)) (\<lambda>_.
     io_bind (io_print (Line ''App registered successfully'')) (\<lambda>_.
     io_bind (expect ''Registration authorize failed'' (authorise svc)) (\<lambda>url.
     io_bind (io_print (Line (''Please visit '' @ url @ '', authorise and enter the code it gives you: ''))) (\<lambda>_.
     io_bind (expect ''Reading code failed'' (read_line svc)) (\<lambda>code.
     io_bind (expect ''Creating access token failed'' (create_access_token svc (trim code))) (\<lambda>d.
     io_bind (io_print (DumpData d)) (\<lambda>_.
     io_bind (call_random_location csv r) (\<lambda>status.
     io_bind (io_print (DumpStatus status)) (\<lambda>_.
     io_bind (post_v2 svc d status) (\<lambda>_.
     io_print (Line ''Done!''))))))))))))"

definition from_configuration_v2 ::
  "(string \<rightharpoonup> string) \<Rightarrow> csv_file \<Rightarrow> nat \<Rightarrow> service \<Rightarrow> unit io" where
  "from_configuration_v2 vars csv r svc =
     io_bind (env vars ''BASE'') (\<lambda>b.
     io_bind (env vars ''CLIENT_ID'') (\<lambda>ci.
     io_bind (env vars ''CLIENT_SECRET'') (\<lambda>cs.
     io_bind (env vars ''TOKEN'') (\<lambda>t.
     (let d = \<lparr>base = b, client_id = ci, client_secret = cs, redirect = OOB, token = t\<rparr>
      in io_bind (call_random_location csv r) (\<lambda>status.
         io_bind (io_print (Line (''Posting '' @ status))) (\<lambda>_.
         io_bind (io_print (DumpStatus status)) (\<lambda>_.
         io_bind (post_v2 svc d status) (\<lambda>_.
         io_print (Line ''Done!''))))))))))"

definition main_v2 ::
  "(string \<rightharpoonup> string) \<Rightarrow> (string \<times> string) list option \<Rightarrow> csv_file \<Rightarrow> nat \<Rightarrow> service \<Rightarrow> unit io" where
  "main_v2 penv file csv r svc =
     (let vars = dotenv penv file
      in if vars ''CLIENT_ID'' \<noteq> None
         then io_bind (io_print (Line BANNER_CONFIGURED)) (\<lambda>_. from_configuration_v2 vars csv r svc)
         else io_bind (io_print (Line BANNER_REGISTER)) (\<lambda>_. register_and_post_v2 vars csv r svc))"

subsection \<open>Observations of a run\<close>

text \<open>A run that panics posted nothing; one that returns posted exactly the status its library call returned.\<close>

definition run_posts :: "string + string \<Rightarrow> unit io \<Rightarrow> bool" where
  "run_posts st run \<longleftrightarrow>
     (case snd run of
        Inl _ \<Rightarrow> posts (fst run) = []
      | Inr _ \<Rightarrow> (\<exists>s. st = Inr s \<and> posts (fst run) = [s]))"

text \<open>Two runs post the same statuses and end the same way.\<close>

definition agree :: "unit io \<Rightarrow> unit io \<Rightarrow> bool" where
  "agree a b \<longleftrightarrow> posts (fst a) = posts (fst b) \<and> snd a = snd b"

subsection \<open>What a run posts\<close>

lemma posts_silent [simp]:
  "posts (fst (env vars s)) = []"
  "posts (fst (expect msg x)) = []"
  "posts (fst (call_random_location csv r)) = []"
  by (auto simp: env_def expect_def call_random_location_output split: option.split sum.split)

lemma silent_bind:
  assumes "posts (fst m) = []" and "\<And>a. snd m = Inr a \<Longrightarrow> run_posts st (f a)"
  shows "run_posts st (io_bind m f)"
  using assms by (cases m) (auto simp: run_posts_def io_bind_def split: sum.split)

lemma call_bind:
  assumes "posts (fst m) = []" and "\<And>s. snd m = Inr s \<Longrightarrow> run_posts (Inr s) (f s)"
  shows "run_posts (snd m) (io_bind m f)"
  using assms by (cases m) (auto simp: run_posts_def io_bind_def split: sum.split)

lemma post_done:
  "run_posts (Inr s) (io_bind (post_v1 svc d s) (\<lambda>_. io_print (Line ''Done!'')))"
  "run_posts (Inr s) (io_bind (post_v2 svc d s) (\<lambda>_. io_print (Line ''Done!'')))"
  by (simp_all add: run_posts_def post_v1_def post_v2_def split: sum.split)

lemma run_posts_Line [simp]: "run_posts st (Line x # xs, res) \<longleftrightarrow> run_posts st (xs, res)"
  by (simp add: run_posts_def split: sum.split)

lemmas run_posts_intros = call_bind silent_bind post_done

lemma from_configuration_v1_posts:
  "run_posts (snd (call_random_location csv r)) (from_configuration_v1 vars csv r svc)"
  unfolding from_configuration_v1_def Let_def
  by (intro run_posts_intros) simp_all

lemma register_and_post_v1_posts:
  "run_posts (snd (call_random_location csv r)) (register_and_post_v1 vars csv r svc)"
  unfolding register_and_post_v1_def
  by (intro run_posts_intros) simp_all

lemma from_configuration_v2_posts:
  "run_posts (snd (call_random_location csv r)) (from_configuration_v2 vars csv r svc)"
  unfolding from_configuration_v2_def Let_def
  by (intro run_posts_intros) simp_all

lemma register_and_post_v2_posts:
  "run_posts (snd (call_random_location csv r)) (register_and_post_v2 vars csv r svc)"
  unfolding register_and_post_v2_def
  by (intro run_posts_intros) simp_all

lemma main_posts:
  "run_posts (snd (call_random_location csv r)) (main_v1 penv file csv r svc)"
  "run_posts (snd (call_random_location csv r)) (main_v2 penv file csv r svc)"
  unfolding main_v1_def main_v2_def Let_def
  by (simp_all add: from_configuration_v1_posts register_and_post_v1_posts
      from_configuration_v2_posts register_and_post_v2_posts)

lemma run_posts_location_text:
  assumes "run_posts (snd (call_random_location csv r)) run"
  shows "case snd run of
           Inl _ \<Rightarrow> posts (fst run) = []
         | Inr _ \<Rightarrow> (\<exists>data s. snd (load_data csv) = Inr data \<and>
                     location_text data (data ! (r mod length data)) = Some s \<and> posts (fst run) = [s])"
  using assms call_random_location_ok [of csv r]
  by (auto simp: run_posts_def split: sum.split)

text \<open>
  C26: a run of either binary that panics has posted nothing; a run that
  returns has posted exactly once, and what it posted is the location text of
  the catalog city at the index the generator drew, in a catalog that
  \<open>load_data\<close> returned.
\<close>

theorem toot_posts_location_text:
  "(case snd (main_v1 penv file csv r svc) of
      Inl _ \<Rightarrow> posts (fst (main_v1 penv file csv r svc)) = []
    | Inr _ \<Rightarrow> (\<exists>data s. snd (load_data csv) = Inr data \<and>
                location_text data (data ! (r mod length data)) = Some s \<and>
                posts (fst (main_v1 penv file csv r svc)) = [s]))
   \<and> (case snd (main_v2 penv file csv r svc) of
      Inl _ \<Rightarrow> posts (fst (main_v2 penv file csv r svc)) = []
    | Inr _ \<Rightarrow> (\<exists>data s. snd (load_data csv) = Inr data \<and>
                location_text data (data ! (r mod length data)) = Some s \<and>
                posts (fst (main_v2 penv file csv r svc)) = [s]))"
  using run_posts_location_text [OF main_posts(1)] run_posts_location_text [OF main_posts(2)]
  by blast

subsection \<open>Missing configuration\<close>

lemma from_configuration_missing:
  assumes "find (\<lambda>k. vars k = None) [''BASE'', ''CLIENT_SECRET'', ''TOKEN''] = Some k"
    and "vars ''CLIENT_ID'' \<noteq> None"
  shows "from_configuration_v1 vars csv r svc = ([], Inl (''must have `'' @ k @ ''` definded''))
    \<and> from_configuration_v2 vars csv r svc = ([], Inl (''must have `'' @ k @ ''` definded''))"
  using assms
  by (auto simp: from_configuration_v1_def from_configuration_v2_def split: if_splits)

text \<open>
  C28: with \<open>CLIENT_ID\<close> set, both binaries read \<open>BASE\<close>, \<open>CLIENT_ID\<close>,
  \<open>CLIENT_SECRET\<close> and \<open>TOKEN\<close> in this order, and the first one missing
  makes the run panic with its name, after the banner and before the catalog is
  loaded or anything is posted.
\<close>

theorem toot_missing_variable_panics:
  assumes "dotenv penv file ''CLIENT_ID'' \<noteq> None"
    and "find (\<lambda>k. dotenv penv file k = None) [''BASE'', ''CLIENT_SECRET'', ''TOKEN''] = Some k"
  shows "main_v1 penv file csv r svc = ([Line BANNER_CONFIGURED], Inl (''must have `'' @ k @ ''` definded''))
    \<and> main_v2 penv file csv r svc = ([Line BANNER_CONFIGURED], Inl (''must have `'' @ k @ ''` definded''))"
  using from_configuration_missing [OF assms(2,1)] assms(1)
  by (simp add: main_v1_def main_v2_def Let_def)

subsection \<open>The two versions compared\<close>

lemma agree_bind:
  assumes "posts (fst m) = []" and "\<And>a. snd m = Inr a \<Longrightarrow> agree (f a) (g a)"
  shows "agree (io_bind m f) (io_bind m g)"
  using assms by (cases m) (auto simp: agree_def io_bind_def split: sum.split)

lemma agree_skip:
  assumes "snd m = Inr ()" and "posts (fst m) = []" and "agree (f ()) g"
  shows "agree (io_bind m f) g"
  using assms by (cases m) (auto simp: agree_def io_bind_def)

lemma agree_post:
  "agree (io_bind (post_v1 svc d s) (\<lambda>_. io_print (Line ''Done!'')))
         (io_bind (post_v2 svc d s) (\<lambda>_. io_print (Line ''Done!'')))"
  by (simp add: agree_def post_v1_def post_v2_def split: sum.split)

lemma agree_Line [simp]: "agree (Line x # xs, res) (Line x # ys, res') \<longleftrightarrow> agree (xs, res) (ys, res')"
  by (simp add: agree_def)

lemma posts_print_Line [simp]: "posts (fst (io_print (Line x))) = []"
  by simp

lemma from_configuration_agree:
  assumes "\<forall>d. from_data svc d = Inr ()"
  shows "agree (from_configuration_v1 vars csv r svc) (from_configuration_v2 vars csv r svc)"
  unfolding from_configuration_v1_def from_configuration_v2_def Let_def
  by (intro agree_post agree_bind agree_skip) (simp_all add: assms)

text \<open>
  C27: on the configured path, and when \<open>Mastodon::from_data\<close> of version 1
  succeeds, the two binaries post the same statuses and end the same way (the
  same panic message or success).
\<close>

theorem configured_versions_agree:
  assumes "dotenv penv file ''CLIENT_ID'' \<noteq> None" and "\<forall>d. from_data svc d = Inr ()"
  shows "posts (fst (main_v2 penv file csv r svc)) = posts (fst (main_v1 penv file csv r svc))
    \<and> snd (main_v2 penv file csv r svc) = snd (main_v1 penv file csv r svc)"
  using from_configuration_agree [OF assms(2), of "dotenv penv file" csv r] assms(1)
  by (simp add: main_v1_def main_v2_def agree_def Let_def)

lemma fst_io_bind: "fst (io_bind m f) = fst m @ (case snd m of Inl _ \<Rightarrow> [] | Inr a \<Rightarrow> fst (f a))"
  by (simp add: io_bind_def split: sum.split)

text \<open>
  C29: on the registration path, version 1 sends the authorisation code with the
  line break \<open>read_line\<close> leaves at its end: a server that accepts exactly the
  code typed refuses it, and the run panics without posting, while version 2,
  which trims the line, obtains the access token.
\<close>

theorem register_v1_sends_line_break:
  assumes "dotenv penv file ''CLIENT_ID'' = None" and "dotenv penv file ''BASE'' = Some b"
    and "registration_new svc b = Inr ()" and "register svc = Inr ()" and "authorise svc = Inr url"
    and "read_line svc = Inr (code @ ''\<newline>'')" and "trimmed code"
    and "create_access_token svc = (\<lambda>c. if c = code then Inr d else Inl ''invalid_grant'')"
  shows "posts (fst (main_v1 penv file csv r svc)) = []
    \<and> snd (main_v1 penv file csv r svc) = Inl ''Creating access token failed: invalid_grant''
    \<and> DumpData d \<in> set (fst (main_v2 penv file csv r svc))"
proof -
  have v1: "main_v1 penv file csv r svc =
      ([Line BANNER_REGISTER, Line (''Please visit '' @ url @ '', authorise and enter the code it gives you: '')],
       Inl ''Creating access token failed: invalid_grant'')"
    using assms by (simp add: main_v1_def register_and_post_v1_def Let_def)
  have "DumpData d \<in> set (fst (register_and_post_v2 (dotenv penv file) csv r svc))"
    using assms by (simp add: register_and_post_v2_def trim_line fst_io_bind)
  with assms(1) have "DumpData d \<in> set (fst (main_v2 penv file csv r svc))"
    by (simp add: main_v2_def Let_def)
  with v1 show ?thesis by simp
qed

end
