(* ===== verification/Tests.thy ===== *)
theory Tests
  imports Narrative "HOL-Library.List_Lexorder" "HOL-Library.Char_ord"
begin

text \<open>
  The unit tests of \<open>src/src/src/lib.rs\<close> (module \<open>tests\<close>), one predicate
  per test function on the catalog \<open>DATA\<close> they read: the predicate holds
  exactly when the test passes (every \<open>assert_eq!\<close> holds and nothing
  panics).  The reference CSV the tests run against is not in the repository:
  the theory replays the tests on catalogs built from the cities they name,
  which checks the model against the outputs the repository expects.
\<close>

subsection \<open>The cities the tests construct\<close>

definition test_pittsburgh :: city where
  "test_pittsburgh =
     \<lparr>name = ''Pittsburgh'', latitude = Num 40.4299986, longitude = Num (-79.99998539),
      population = Num 0, country = ''United States of America'', province = ''Pennsylvania''\<rparr>"

definition test_jaque :: city where
  "test_jaque =
     \<lparr>name = ''Jaque'', latitude = Num 7.518958353, longitude = Num (-78.16601465),
      population = Num 0, country = ''Panama'', province = ''Dari'' @ [CHR 0xC3, CHR 0xA9] @ ''n''\<rparr>"

text \<open>\<open>assert_approx_eq!(a, b)\<close>: \<open>(a - b).abs() < 1.0e-6\<close>.\<close>

definition approx_eq :: "f64 \<Rightarrow> f64 \<Rightarrow> bool" where
  "approx_eq a b \<longleftrightarrow> f64_lt (f64_abs (f64_sub a b)) (Num 0.000001)"

subsection \<open>The latitude tests\<close>

definition it_finds_cities_with_same_latitude :: "catalog \<Rightarrow> bool" where
  "it_finds_cities_with_same_latitude data \<longleftrightarrow>
     sort (map name (same_latitude data (Num 40.4299986))) =
     [''Adapazari'', ''Agdam'', ''Alexandroupoli'', ''Ali Bayramli'', ''Allentown'',
      ''Altoona'', ''Amasya'', ''Andijon'', ''Anxi'', ''Aomori'', ''Arcata'', ''Artashat'',
      ''Ashtarak'', ''Aveiro'', ''Baku'', ''Baotou'', ''Beaver Falls'', ''Berat'', ''Bilecik'',
      ''Bloomington'', ''Bolu'', ''Boulder'', ''Brindisi'', ''Burlington'', ''Bursa'',
      ''Canakkale'', ''Cankiri'', ''Canton'', ''Castello'', ''Changping'', ''Chosan'',
      ''Coimbra'', ''Columbus'', ''Corovode'', ''Corum'', ''Covilha'', ''Craig'', ''Dandong'',
      ''Datong'', ''Dunhuang'', ''Elko'', ''Erseke'', ''Eureka'', ''Fargona'', ''Fengzhen'',
      ''Fier'', ''Fort Collins'', ''Gadabay'', ''Ganca'', ''Gavarr'', ''Giresun'',
      ''Gjirokaster'', ''Goranboy'', ''Goycay'', ''Gramsh'', ''Grand Island'', ''Greeley'',
      ''Guadalajara'', ''Guarda'', ''Guliston'', ''Gumushane'', ''Gyumri'', ''Hachinohe'',
      ''Hanggin Houqi'', ''Harrisburg'', ''Hirosaki'', ''Hohhot'', ''Ijevan'', ''Izmit'',
      ''Jinxi'', ''Jizzax'', ''Johnstown'', ''Kars'', ''Katerini'', ''Kearney'', ''Khujand'',
      ''Kimchaek'', ''Kimhyonggwon'', ''Kirksville'', ''Kokomo'', ''Konibodom'', ''Korce'',
      ''Lafayette'', ''Lancaster'', ''Lecce'', ''Lima'', ''Lincoln'', ''Madrid'',
      ''Mansfield'', ''Marion'', ''McCook'', ''Muncie'', ''Naples'', ''Navoi'', ''New York'',
      ''Newark'', ''Olbia'', ''Olmaliq'', ''Osh'', ''Paterson'', ''Peoria'', ''Permet'',
      ''Philadelphia'', ''Pittsburgh'', ''Pogradec'', ''Polygyros'', ''Potenza'', ''Provo'',
      ''Qinhuangdao'', ''Qoqon'', ''Quincy'', ''Redding'', ''Sakarya'', ''Salerno'',
      ''Salt Lake City'', ''Sassari'', ''Sinuiju'', ''State College'', ''Sumqayt'',
      ''Taedong'', ''Taranto'', ''Tepelene'', ''Thessaloniki'', ''Tokat'', ''Trenton'',
      ''Turkmenbasy'', ''Urbana'', ''Vanadzor'', ''Vernal'', ''Viseu'', ''Vlore'',
      ''Wheeling'', ''Xuanhua'', ''Yerevan'', ''Yevlax'', ''Yingkow'', ''York'',
      ''Zanesville'', ''Zhangjiakou'']"

definition it_filters_to_ten_by_population :: "catalog \<Rightarrow> bool" where
  "it_filters_to_ten_by_population data \<longleftrightarrow>
     (case top_by_population (same_latitude data (Num 40.4299986)) of
        None \<Rightarrow> False
      | Some cities \<Rightarrow> map name cities =
          [''New York'', ''Philadelphia'', ''Madrid'', ''Baku'', ''Naples'', ''Pittsburgh'',
           ''Datong'', ''Bursa'', ''Jinxi'', ''Hohhot''])"

definition it_sorts_easterly :: "catalog \<Rightarrow> bool" where
  "it_sorts_easterly data \<longleftrightarrow>
     (case top_by_population (same_latitude data (Num 40.4299986)) of
        None \<Rightarrow> False
      | Some cities \<Rightarrow>
          (case sort_easterly cities (Num (-79.99998539)) of
             None \<Rightarrow> False
           | Some cities \<Rightarrow> map name cities =
               [''Philadelphia'', ''New York'', ''Madrid'', ''Naples'', ''Bursa'', ''Baku'',
                ''Hohhot'', ''Datong'', ''Jinxi'', ''Pittsburgh'']))"

definition it_creates_latitude_text :: "catalog \<Rightarrow> bool" where
  "it_creates_latitude_text data \<longleftrightarrow>
     latitude_text data test_pittsburgh =
       Some (''If you fly along this latitude in an easterly direction, you will look ''
       @ ''down on Philadelphia, New York, Madrid, Naples, Bursa, Baku, Hohhot, ''
       @ ''Datong, Jinxi, Pittsburgh.'')"

definition it_creates_latitude_text_for_small_cities :: "catalog \<Rightarrow> bool" where
  "it_creates_latitude_text_for_small_cities data \<longleftrightarrow>
     latitude_text data test_jaque =
       Some (''If you fly along this latitude in an easterly direction, you will look ''
       @ ''down on Bucaramanga, Cucuta, Bouake, Abeokuta, Ibadan, Oyo, Ife, Ado ''
       @ ''Ekiti, Ikare, Jaque.'')"

subsection \<open>The longitude tests\<close>

definition it_finds_longitude_on_other_side_of_the_world :: bool where
  "it_finds_longitude_on_other_side_of_the_world \<longleftrightarrow>
     (let long = Num (-79.99998539)
      in approx_eq (opposite_longitude long) (Num 100.00001461) \<and>
         (let long = f64_mul long (Num (-1))
          in approx_eq (opposite_longitude long) (Num (-100.00001461))))"

definition it_finds_cities_with_same_longitude :: "catalog \<Rightarrow> bool" where
  "it_finds_cities_with_same_longitude data \<longleftrightarrow>
     sort (map name (same_longitude data (Num (-79.99998539)))) =
     [''Alor Setar'', ''Ang Thong'', ''Babahoyo'', ''Balboa'', ''Ban Houayxay'', ''Barrie'',
      ''Beaver Falls'', ''Blacksburg'', ''Bukittinggi'', ''Butterworth'', ''Chainat'',
      ''Charleston'', ''Chiang Rai'', ''Chiclayo'', ''Chitre'', ''Chone'', ''Chulucanas'',
      ''Cienfuegos'', ''Clarksburg'', ''Cobalt'', ''Colon'', ''Coral Gables'',
      ''Coral Springs'', ''Dali'', ''Erie'', ''Esmeraldas'', ''Ferrenafe'', ''Florence'',
      ''Fort Lauderdale'', ''Fort Pierce'', ''George Town'', ''Greensboro'', ''Guayaquil'',
      ''Hamilton'', ''Hat Yai'', ''Homestead'', ''Hua Hin'', ''Kamphaeng Phet'',
      ''Kanchanaburi'', ''Kangar'', ''Las Tablas'', ''Lijiang'', ''Macara'', ''Machala'',
      ''Miami'', ''Miami Beach'', ''Milagro'', ''Morgantown'', ''Moron'', ''Motupe'',
      ''Muisne'', ''Nakhon Pathom'', ''Nakhon Sawan'', ''Nakhon Si Thammarat'',
      ''New Liskeard'', ''Nonthaburi'', ''Olmos'', ''Orangeville'', ''Pacasmayo'', ''Padang'',
      ''Padangpanjang'', ''Panama City'', ''Parry Sound'', ''Penonome'', ''Phatthalung'',
      ''Phayao'', ''Phetchaburi'', ''Phichit'', ''Phitsanulok'', ''Phrae'', ''Pimentel'',
      ''Pinas'', ''Pittsburgh'', ''Placetas'', ''Portoviejo'', ''Prachuap Khiri Khan'',
      ''Ratchaburi'', ''Roanoke'', ''Sagua la Grande'', ''Salisbury'', ''Samut Sakhon'',
      ''Samut Songkhram'', ''Santa Clara'', ''Satun'', ''Sing Buri'', ''Sukhothai'',
      ''Sumter'', ''Sungai Petani'', ''Supham Buri'', ''Thung Song'', ''Trang'', ''Tumbes'',
      ''Tura'', ''Uthai Thani'', ''Uttaradit'', ''Vero Beach'', ''West Palm Beach'',
      ''White Sulphur Springs'', ''Winston-Salem'', ''Zhangye'']"

definition it_filters_longitude_cities_to_ten_by_population :: "catalog \<Rightarrow> bool" where
  "it_filters_longitude_cities_to_ten_by_population data \<longleftrightarrow>
     (case top_by_population (same_longitude data (Num (-79.99998539))) of
        None \<Rightarrow> False
      | Some cities \<Rightarrow> map name cities =
          [''Miami'', ''Guayaquil'', ''George Town'', ''Pittsburgh'', ''Fort Lauderdale'',
           ''Padang'', ''Panama City'', ''West Palm Beach'', ''Hamilton'', ''Chiclayo''])"

definition it_sorts_northerly :: "catalog \<Rightarrow> bool" where
  "it_sorts_northerly data \<longleftrightarrow>
     (case top_by_population (same_longitude data (Num (-79.99998539))) of
        None \<Rightarrow> False
      | Some cities \<Rightarrow>
          (case sort_northerly cities (Num 40.4299986) (Num (-79.99998539)) of
             None \<Rightarrow> False
           | Some cities \<Rightarrow> map name cities =
               [''Hamilton'', ''North Pole'', ''George Town'', ''Padang'', ''South Pole'',
                ''Chiclayo'', ''Guayaquil'', ''Panama City'', ''Miami'', ''Fort Lauderdale'',
                ''West Palm Beach'', ''Pittsburgh'']))"

definition it_creates_longitude_text :: "catalog \<Rightarrow> bool" where
  "it_creates_longitude_text data \<longleftrightarrow>
     longitude_text data test_pittsburgh =
       Some (''If you fly along this longitude starting north, you will look down on ''
       @ ''Hamilton, North Pole, George Town, Padang, South Pole, Chiclayo, ''
       @ ''Guayaquil, Panama City, Miami, Fort Lauderdale, West Palm Beach, ''
       @ ''Pittsburgh.'')"

definition it_creates_longitude_text_for_small_cities :: "catalog \<Rightarrow> bool" where
  "it_creates_longitude_text_for_small_cities data \<longleftrightarrow>
     longitude_text data test_jaque =
       Some (''If you fly along this longitude starting north, you will look down on ''
       @ ''Raleigh, North Pole, Xining, Panzhihua, Kota Baharu, Kuala Lumpur, ''
       @ ''Shah Alam, Kelang, Malacca, Pekanbaru, South Pole, Jaque.'')"

subsection \<open>The full-text tests\<close>

definition it_creates_full_text :: "catalog \<Rightarrow> bool" where
  "it_creates_full_text data \<longleftrightarrow>
     location_text data test_pittsburgh =
       Some (''You are now in Pittsburgh, Pennsylvania, United States of America'' @ ''\<newline>''
       @ ''40'' @ degree_sign @ ''25'' @ apostrophe @ ''N 79'' @ degree_sign @ ''59'' @ apostrophe @ ''W''
       @ ''\<newline>''
       @ ''If you fly along this latitude in an easterly direction, you will look ''
       @ ''down on Philadelphia, New York, Madrid, Naples, Bursa, Baku, Hohhot, ''
       @ ''Datong, Jinxi, Pittsburgh.''
       @ ''\<newline>''
       @ ''If you fly along this longitude starting north, you will look down on ''
       @ ''Hamilton, North Pole, George Town, Padang, South Pole, Chiclayo, ''
       @ ''Guayaquil, Panama City, Miami, Fort Lauderdale, West Palm Beach, ''
       @ ''Pittsburgh.'')"

definition it_creates_full_text_for_small_cities :: "catalog \<Rightarrow> bool" where
  "it_creates_full_text_for_small_cities data \<longleftrightarrow>
     location_text data test_jaque =
       Some (''You are now in Jaque, Dari'' @ [CHR 0xC3, CHR 0xA9] @ ''n, Panama'' @ ''\<newline>''
       @ ''7'' @ degree_sign @ ''31'' @ apostrophe @ ''N 78'' @ degree_sign @ ''9'' @ apostrophe @ ''W''
       @ ''\<newline>''
       @ ''If you fly along this latitude in an easterly direction, you will look ''
       @ ''down on Bucaramanga, Cucuta, Bouake, Abeokuta, Ibadan, Oyo, Ife, Ado ''
       @ ''Ekiti, Ikare, Jaque.''
       @ ''\<newline>''
       @ ''If you fly along this longitude starting north, you will look down on ''
       @ ''Raleigh, North Pole, Xining, Panzhihua, Kota Baharu, Kuala Lumpur, ''
       @ ''Shah Alam, Kelang, Malacca, Pekanbaru, South Pole, Jaque.'')"

subsection \<open>Replay catalogs\<close>

text \<open>
  Catalogs built from the cities the tests name, with the coordinates of the
  cities and populations chosen to give the orders the tests expect; the
  reference dataset itself is not in the repository.
\<close>

definition mk_city :: "string \<Rightarrow> real \<Rightarrow> real \<Rightarrow> real \<Rightarrow> city" where
  "mk_city n la lo p =
     \<lparr>name = n, latitude = Num la, longitude = Num lo, population = Num p,
      country = [], province = []\<rparr>"

definition pittsburgh :: city where
  "pittsburgh =
     \<lparr>name = ''Pittsburgh'', latitude = Num 40.4299986, longitude = Num (-79.99998539),
      population = Num 1535267, country = ''United States of America'',
      province = ''Pennsylvania''\<rparr>"

definition pittsburgh_catalog :: catalog where
  "pittsburgh_catalog =
     [mk_city ''New York'' 40.74997906 (-73.98001693) 19040000,
      mk_city ''Philadelphia'' 39.99997 (-75.17) 5600000,
      mk_city ''Madrid'' 40.40002626 (-3.683351686) 5567000,
      mk_city ''Baku'' 40.39527 49.862217 2122300,
      mk_city ''Naples'' 40.84 14.245 2100000,
      pittsburgh,
      mk_city ''Datong'' 40.08 113.3 1462839,
      mk_city ''Bursa'' 40.2 29.07 1412701,
      mk_city ''Jinxi'' 40.7503 120.83 1350000,
      mk_city ''Hohhot'' 40.82 111.66 1250000,
      mk_city ''Miami'' 25.7876107 (-80.22410608) 5695000,
      mk_city ''Guayaquil'' (-2.22) (-79.92) 2514000,
      mk_city ''George Town'' 5.41 100.33 2500000,
      mk_city ''Fort Lauderdale'' 26.136 (-80.142) 1103781,
      mk_city ''Padang'' (-0.960015951) 100.3600069 820000,
      mk_city ''Panama City'' 8.968 (-79.533) 810000,
      mk_city ''West Palm Beach'' 26.745 (-80.133) 780000,
      mk_city ''Hamilton'' 43.25 (-79.83) 720000,
      mk_city ''Chiclayo'' (-6.763) (-79.837) 700000]"

definition jaque_catalog :: catalog where
  "jaque_catalog =
     [mk_city ''Ibadan'' 7.38 3.90 2628000,
      mk_city ''Bucaramanga'' 7.1301 (-73.1259) 956000,
      mk_city ''Cucuta'' 7.92 (-72.52) 868000,
      mk_city ''Oyo'' 7.85 3.93 736000,
      mk_city ''Abeokuta'' 7.16 3.35 593100,
      mk_city ''Bouake'' 7.69 (-5.03) 567000,
      mk_city ''Ife'' 7.48 4.56 482000,
      mk_city ''Ado Ekiti'' 7.63 5.22 446749,
      mk_city ''Ikare'' 7.53 5.76 324000,
      test_jaque\<lparr>population := Num 2386\<rparr>,
      mk_city ''Kuala Lumpur'' 3.17 101.70 1448000,
      mk_city ''Xining'' 36.62 101.77 1048000,
      mk_city ''Shah Alam'' 3.07 101.55 481654,
      mk_city ''Kelang'' 3.04 101.45 879867,
      mk_city ''Pekanbaru'' 0.57 101.44 852000,
      mk_city ''Raleigh'' 35.82 (-78.64) 1163515,
      mk_city ''Malacca'' 2.21 102.25 645000,
      mk_city ''Panzhihua'' 26.55 101.73 461513,
      mk_city ''Kota Baharu'' 6.12 102.25 577000]"

subsection \<open>The tests on the replay catalogs\<close>

lemmas replay_defs = pittsburgh_catalog_def jaque_catalog_def pittsburgh_def test_jaque_def mk_city_def
  same_latitude_def LATITUDE_TOLERANCE_def same_longitude_def LONGITUDE_TOLERANCE_def
  opposite_longitude_def top_by_population_def NUM_CITIES_def cmp_real_def

lemma pittsburgh_sorts_easterly: "it_sorts_easterly pittsburgh_catalog"
  by (simp add: it_sorts_easterly_def pittsburgh_catalog_def pittsburgh_def mk_city_def
      same_latitude_def LATITUDE_TOLERANCE_def top_by_population_def NUM_CITIES_def
      sort_easterly_def cmp_real_def)

lemma pittsburgh_sorts_northerly: "it_sorts_northerly pittsburgh_catalog"
  by (simp add: it_sorts_northerly_def replay_defs sort_northerly_def same_side_def
      NORTH_POLE_def SOUTH_POLE_def)

lemma pittsburgh_latitude_text: "it_creates_latitude_text pittsburgh_catalog"
  by (simp add: it_creates_latitude_text_def latitude_text_def latitude_cities_def replay_defs
      test_pittsburgh_def sort_easterly_def display_city_def NUM_CITIES_LATITUDE_def)

lemma pittsburgh_longitude_text: "it_creates_longitude_text pittsburgh_catalog"
  by (simp add: it_creates_longitude_text_def longitude_text_def longitude_cities_def replay_defs
      test_pittsburgh_def sort_northerly_def same_side_def NORTH_POLE_def SOUTH_POLE_def
      display_city_def NUM_CITIES_LONGITUDE_def)

lemma jaque_latitude_text: "it_creates_latitude_text_for_small_cities jaque_catalog"
  by (simp add: it_creates_latitude_text_for_small_cities_def latitude_text_def latitude_cities_def
      replay_defs sort_easterly_def display_city_def NUM_CITIES_LATITUDE_def)

lemma jaque_longitude_text: "it_creates_longitude_text_for_small_cities jaque_catalog"
  by (simp add: it_creates_longitude_text_for_small_cities_def longitude_text_def longitude_cities_def
      replay_defs sort_northerly_def same_side_def NORTH_POLE_def SOUTH_POLE_def
      display_city_def NUM_CITIES_LONGITUDE_def)

lemma pittsburgh_filters_to_ten:
  "it_filters_to_ten_by_population pittsburgh_catalog"
  "it_filters_longitude_cities_to_ten_by_population pittsburgh_catalog"
  by (simp_all add: it_filters_to_ten_by_population_def it_filters_longitude_cities_to_ten_by_population_def
      replay_defs)

end
