(* ===== verification/Spec2Isabelle.thy ===== *)
theory Spec2Isabelle
  imports Toot Tests
begin

text \<open>
  \<^bold>\<open>A verification development of the city narrative library of the
  Mastodon toot client.\<close>

  \<^bold>\<open>The program.\<close>  \<open>src/src/src/lib.rs\<close> writes a four-line post about a
  city: its name, province and country, its coordinates in degrees and
  minutes, the cities met when flying east along its parallel, and the cities
  met when flying north along its meridian and back over both poles.  The
  cities come from a CSV file read once by \<open>src/src/data_loader.rs\<close> into the
  \<open>lazy_static\<close> catalog \<open>DATA\<close>.  The two binaries \<open>src/src/bin/toot.rs\<close> and
  \<open>src/src/src/bin/toot.rs\<close> call \<open>random_location\<close> and post the text.

  \<^bold>\<open>The theories, bottom up.\<close>
  \<^item> \<open>Prelude\<close>: the named collections and the generic lemmas on sorted lists,
    filters, prefixes and multisets the components share.
  \<^item> \<open>Float64\<close>: the doubles (\<open>datatype f64 = Num real | NaN\<close>), Rust's
    \<open>Ordering\<close>, \<open>partial_cmp\<close>, the comparisons (false on NaN), \<open>abs\<close>,
    \<open>floor\<close>, the truncating \<open>%\<close>, and \<open>Display\<close> of integral values.
  \<^item> \<open>Sort_By\<close>: \<open>slice::sort_by\<close> with a comparator that may panic, as a stable
    insertion sort into \<open>'a list option\<close>; it refines HOL's \<open>sort_key\<close> when
    no key is NaN and panics exactly when two or more elements meet a NaN key.
  \<^item> \<open>Catalog\<close>: \<open>struct City\<close> as the record \<open>city\<close>, \<open>Display\<close> as
    \<open>display_city\<close>, \<open>NORTH_POLE\<close> and \<open>SOUTH_POLE\<close>; the loader
    (\<open>Record\<close>, \<open>From<Record>\<close>, \<open>load_data\<close> with its \<open>enumerate\<close> loop
    \<open>load_rows\<close>), which returns its printed lines and
    \<open>load_error + catalog\<close>.
  \<^item> \<open>Bands\<close>: \<open>same_latitude\<close>, \<open>opposite_longitude\<close>, \<open>same_longitude\<close>,
    reading the catalog as an argument.
  \<^item> \<open>Ranking\<close>: \<open>top_by_population\<close>.
  \<^item> \<open>Directional\<close>: \<open>sort_easterly\<close> and \<open>sort_northerly\<close>, with the
    partition of \<open>partition_map\<close> as \<open>partition\<close>.
  \<^item> \<open>Narrative\<close>: \<open>latitude_cities\<close>, \<open>latitude_text\<close>,
    \<open>longitude_cities\<close>, \<open>longitude_text\<close>, \<open>decimal_to_degrees_minutes\<close>,
    \<open>latitude_in_degrees\<close>, \<open>longitude_in_degrees\<close> and \<open>location_text\<close>.
  \<^item> \<open>Runtime\<close>: the process state (the cell of \<open>DATA\<close>: uninitialised,
    ready or poisoned, and the loader's output), \<open>random_location\<close>, and the
    entry-point calls as \<open>step\<close>, with the inductive \<open>reachable\<close> states.
  \<^item> \<open>Toot_IO\<close>: what the binaries see: a run \<open>'a io\<close> (console output
    and a panic message or a result, with \<open>io_bind\<close> for \<open>;\<close> and
    \<open>expect\<close> for \<open>Result::expect\<close>), the environment after
    \<open>dotenv::dotenv()\<close>, the Mastodon server as the interface record
    \<open>service\<close>, the library call \<open>call_random_location\<close> in a fresh
    process, and \<open>str::trim\<close>.
  \<^item> \<open>Toot\<close>: \<open>main\<close>, \<open>register_and_post\<close> and \<open>from_configuration\<close> of
    both binaries, as \<open>main_v1\<close> (\<open>src/src/bin/toot.rs\<close>) and \<open>main_v2\<close>
    (\<open>src/src/src/bin/toot.rs\<close>).
  \<^item> \<open>Tests\<close>: the unit tests of \<open>lib.rs\<close>, one predicate per test
    function on the catalog, true exactly when the test passes, and catalogs
    of the cities the tests name on which they are replayed.
  \<^item> \<open>Spec2Isabelle\<close> (this theory): the properties of the two sentences,
    which span bands, ranking, sorts and rendering, and the witnesses of every
    property on small catalogs built from the coordinates of the tests.

  \<^bold>\<open>Correspondence.\<close>  Every function of the Rust code that may panic
  (\<open>unwrap()\<close> on \<open>partial_cmp\<close>, on \<open>choose\<close>, on \<open>load_data\<close>) returns an
  option here, \<open>None\<close> being the panic; a panic of \<open>DATA\<close>'s initialiser
  poisons the cell, so that later accesses panic as well.  Loops are
  recursion on the list they iterate: every definition is total and
  executable, and no fuel is needed.  The random generator is the index it
  draws, reduced modulo the catalog's length as \<open>choose\<close> does; the state
  of the thread-local generator is not part of the process state, so no
  property here speaks of the state a call leaves behind beyond \<open>DATA\<close>.

  \<^bold>\<open>What is proved.\<close>  For each sort, that the reference city comes last and
  that the output is ordered by the distance flown from the reference (an
  explicit offset in \<open>(0, 360]\<close>), with the exact conditions of a panic; for
  the northerly sort, which part of the route each side fills, whether or not
  a coordinate is NaN; both the ranking and the easterly sort are stable; the
  ranking returns the most populous cities in order; the bands keep catalog
  order and hold the cities within half a degree, up to a margin that absorbs
  rounding; the loader's result, its error paths and its messages; for the
  process, an invariant proved by rule induction (the catalog is loaded once and
  a failed load makes every later call panic) and the refinement of an eager
  load-then-answer contract by the lazy cell.  End to end: the sentences name the ten
  top cities once each, the reference city last, when the band is full; and
  they name the reference city twice when the band holds nine cities or
  fewer, which contradicts the comment on \<open>NUM_CITIES_LATITUDE\<close>.  For the
  binaries: a run posts at most once, exactly the library's text, and only
  when it returns; a missing variable makes it panic before anything is loaded;
  the two versions agree on the configured path; and version 1 sends the
  authorisation code with its line break, which version 2 trims.  The unit
  tests are modelled and replayed on catalogs of the cities they name, as a
  check of the model against the outputs the repository expects.

  \<^bold>\<open>Not modelled.\<close>  Floating-point rounding and the infinities.  The sorts,
  the ranking and the sentences only compare coordinates, so their properties
  hold of doubles as they are.  Where the program computes (the band edges
  \<open>lat \<plusminus> 0.5\<close>, the antipodal meridian, degrees and minutes), rounding
  matters at the boundaries: the band properties are stated with a margin of
  \<open>10\<^sup>-\<^sup>9\<close> degrees, larger than the rounding on coordinates of at most 180
  degrees, and no property is claimed of the degree/minute rendering, whose
  \<open>x * 60\<close> can round a coordinate just below a minute up to it.  No
  computation of the program produces an infinity from finite coordinates.  Opening the file and parsing CSV text
  (the \<open>csv\<close> crate): the loader receives the per-row results.  The
  network protocol of \<open>mammut\<close>: the server is an arbitrary \<open>service\<close>, so
  the properties of the binaries hold for every answer it may give; the layout
  of \<open>{:#?}\<close> dumps, which events carry as values; the exact message of a
  panic inside the library.  The reference CSV the unit tests read is not in
  the repository: the two tests that list a whole band of it are modelled but
  cannot be evaluated, and the other tests are replayed on catalogs of the
  cities they name.
\<close>

section \<open>Catalogs of finite numbers\<close>

text \<open>
  A catalog whose coordinates and populations are all numbers: the condition
  under which none of the sorts can panic.
\<close>

definition valid_catalog :: "catalog \<Rightarrow> bool" where
  "valid_catalog data \<longleftrightarrow>
     (\<forall>c\<in>set data. \<not> is_nan (latitude c) \<and> \<not> is_nan (longitude c) \<and> \<not> is_nan (population c))"

section \<open>Concrete catalogs\<close>

text \<open>
  Small catalogs on which the properties are applied: five cities of the
  repository's tests (coordinates and populations of the reference dataset),
  and a ring of ten cities on one parallel and one meridian, enough to fill a
  band.
\<close>

definition new_york :: city where
  "new_york = mk_city ''New York'' 40.74997906 (-73.98001693) 19040000"

definition madrid :: city where
  "madrid = mk_city ''Madrid'' 40.40002626 (-3.683351686) 5567000"

definition miami :: city where
  "miami = mk_city ''Miami'' 25.7876107 (-80.22410608) 5695000"

definition padang :: city where
  "padang = mk_city ''Padang'' (-0.960015951) 100.3600069 820000"

definition sample :: catalog where
  "sample = [pittsburgh, new_york, madrid, miami, padang]"

text \<open>A city whose CSV row held NaN for its latitude and population.\<close>

definition nowhere :: city where
  "nowhere = \<lparr>name = ''Nowhere'', latitude = NaN, longitude = Num (-10), population = NaN,
     country = [], province = []\<rparr>"

text \<open>A city whose CSV row held NaN for its longitude.\<close>

definition lost :: city where
  "lost = \<lparr>name = ''Lost'', latitude = Num 10, longitude = NaN, population = Num 0,
     country = [], province = []\<rparr>"

definition ring :: catalog where
  "ring = map (\<lambda>k. mk_city [char_of (65 + k)] 10 (20 * real k - 90) (real k + 1)) [0..<10]"

definition meridian :: catalog where
  "meridian = map (\<lambda>k. mk_city [char_of (75 + k)] (18 * real k - 81) 20 (real k + 1)) [0..<10]"

text \<open>A small city on the parallel of \<open>ring\<close>, east of all of it.\<close>

text \<open>Two cities on one meridian and a third to the west.\<close>

definition twins :: catalog where
  "twins = [mk_city ''A'' 1 10 2, mk_city ''C'' 3 (-50) 3, mk_city ''B'' 2 10 1]"

definition outsider :: city where
  "outsider = mk_city ''Z'' 10 95 (1 / 2)"

definition sample_csv :: csv_file where
  "sample_csv =
     Inr [Inr \<lparr>rec_city = ''Pittsburgh'', rec_city_ascii = ''Pittsburgh'',
               rec_latitude = Num 40.4299986, rec_longitude = Num (-79.99998539),
               rec_population = Num 1535267, rec_country = ''United States of America'',
               rec_iso2 = ''US'', rec_iso3 = ''USA'', rec_province = ''Pennsylvania''\<rparr>,
          Inl ''CSV deserialize error: record 1'']"

text \<open>The process after a first call has loaded \<open>sample_csv\<close>.\<close>

definition loaded_process :: process where
  "loaded_process = \<lparr>cell = Ready [pittsburgh], stdout = fst (load_data sample_csv)\<rparr>"

text \<open>
  A Mastodon server on which every call succeeds, one that accepts exactly the
  authorisation code \<open>abc\<close>, and environments for the two paths of \<open>main\<close>.
\<close>

definition token_data :: mastodon_data where
  "token_data = \<lparr>base = ''https://mastodon.social'', client_id = ''id'', client_secret = ''secret'',
     redirect = OOB, token = ''token''\<rparr>"

definition ok_service :: service where
  "ok_service =
     \<lparr>registration_new = (\<lambda>_. Inr ()), register = Inr (),
      authorise = Inr ''https://mastodon.social/oauth/authorize'',
      read_line = Inr (''abc'' @ ''\<newline>''), create_access_token = (\<lambda>_. Inr token_data),
      from_data = (\<lambda>_. Inr ()), new_status = (\<lambda>_ _. Inr ())\<rparr>"

definition strict_service :: service where
  "strict_service =
     ok_service\<lparr>create_access_token := (\<lambda>c. if c = ''abc'' then Inr token_data else Inl ''invalid_grant'')\<rparr>"

definition configured_env :: "string \<rightharpoonup> string" where
  "configured_env = [''BASE'' \<mapsto> ''https://mastodon.social'', ''CLIENT_ID'' \<mapsto> ''id'',
     ''CLIENT_SECRET'' \<mapsto> ''secret'', ''TOKEN'' \<mapsto> ''token'']"

definition register_env :: "string \<rightharpoonup> string" where
  "register_env = [''BASE'' \<mapsto> ''https://mastodon.social'']"

lemmas sample_defs = sample_def pittsburgh_def new_york_def madrid_def miami_def padang_def mk_city_def

section \<open>Facts shared by the end-to-end properties\<close>

lemma valid_catalog_keys:
  assumes "valid_catalog data" and "set xs \<subseteq> set data"
  shows "no_nan_key latitude xs" "no_nan_key longitude xs" "no_nan_key population xs"
  using assms by (auto simp: valid_catalog_def no_nan_key_def)

lemma top_by_population_set:
  "top_by_population xs = Some r \<Longrightarrow> set r \<subseteq> set xs"
  by (auto simp: top_by_population_def split: option.splits dest!: sort_by_set in_set_takeD)

lemma top_by_population_small:
  assumes "no_nan_key population xs" and "length xs \<le> NUM_CITIES"
  shows "\<exists>r. top_by_population xs = Some r \<and> mset r = mset xs"
  using assms by (simp add: top_by_population_sort_key)

lemma join_map_last:
  "xs \<noteq> [] \<Longrightarrow> \<exists>pre. join sep (map f xs) = pre @ f (last xs)"
proof (induction xs rule: induct_list012)
  case (3 x y xs)
  then obtain pre where "join sep (map f (y # xs)) = pre @ f (last (y # xs))" by auto
  then show ?case by (intro exI [of _ "f x @ sep @ pre"]) simp
qed auto

lemma sentence_repeats_last:
  assumes "r \<noteq> []" and "last r = c"
  shows "\<exists>pre. head @ join sep (map f r) @ sep @ f c @ tail = pre @ f c @ sep @ f c @ tail"
proof -
  from join_map_last [OF assms(1)] obtain pre where "join sep (map f r) = pre @ f (last r)" ..
  with assms(2) show ?thesis by (intro exI [of _ "head @ pre"]) simp
qed

lemma sentence_names_all:
  assumes "length r = Suc n" and "last r = c" and "0 < n"
  shows "join sep (map f (take n r)) @ sep @ f c = join sep (map f r)"
proof -
  from assms(1,3) have ne: "butlast r \<noteq> []" by (cases r) auto
  from assms(1) have r: "r = butlast r @ [last r]" by (cases r) auto
  from assms(1) have "take n r = butlast r" by (rule take_butlast_last)
  then have "join sep (map f (take n r)) @ sep @ f c = join sep (map f (butlast r) @ [f c])"
    using ne by (simp add: join_snoc)
  also have "\<dots> = join sep (map f r)"
    using r assms(2) by (metis map_append list.map(1,2))
  finally show ?thesis .
qed

section \<open>End-to-end properties of the two sentences\<close>

text \<open>
  C9: when the reference city is among the ten most populous cities of its
  latitude band, the band has at least ten cities, and no other of these ten has
  its longitude, the latitude sentence names each of the ten once, in the order
  of \<open>sort_easterly\<close>, the reference city last.
\<close>

theorem latitude_text_names_top_cities:
  assumes "valid_catalog data"
    and "top_by_population (same_latitude data (latitude c)) = Some best"
    and "c \<in> set best" and "\<forall>d\<in>set best. longitude d = longitude c \<longrightarrow> d = c"
    and "length best = NUM_CITIES"
  shows "\<exists>r. sort_easterly best (longitude c) = Some r \<and> mset r = mset best \<and> last r = c \<and>
    latitude_text data c =
      Some (''If you fly along this latitude in an easterly direction, you will look down on ''
            @ join '', '' (map display_city r) @ ''.'')"
proof -
  have sub: "set best \<subseteq> set data"
    using top_by_population_set [OF assms(2)] same_latitude_subset by blast
  note keys = valid_catalog_keys [OF assms(1) sub]
  from keys(2) assms(3) have l: "longitude c = Num (lon c)" by (rule no_nan_key_Num)
  have west: "filter (\<lambda>d. lon d \<le> lon c) (sort_key lon best) \<noteq> [] \<and>
      last (filter (\<lambda>d. lon d \<le> lon c) (sort_key lon best)) = c"
    by (rule west_ends_with_reference [OF keys(2) assms(3) l assms(4)])
  define r where "r = filter (\<lambda>d. \<not> lon d \<le> lon c) (sort_key lon best) @
      filter (\<lambda>d. lon d \<le> lon c) (sort_key lon best)"
  have r: "sort_easterly best (longitude c) = Some r"
    unfolding r_def by (subst l) (rule sort_easterly_Num [OF keys(2)])
  have last: "last r = c" using west by (simp add: r_def)
  have ms: "mset r = mset best" by (rule sort_easterly_mset [OF r])
  then have "length r = length best" by (metis size_mset)
  with assms(5) have len: "length r = Suc NUM_CITIES_LATITUDE"
    by (simp add: NUM_CITIES_def NUM_CITIES_LATITUDE_def)
  have "join '', '' (map display_city (take NUM_CITIES_LATITUDE r)) @ '', '' @ display_city c =
      join '', '' (map display_city r)"
    by (rule sentence_names_all [OF len last]) (simp add: NUM_CITIES_LATITUDE_def)
  with assms(2) r ms last show ?thesis
    by (simp add: latitude_text_def latitude_cities_def)
qed

text \<open>
  C10: when the reference city is among the ten most populous cities of its
  meridian band, the band has at least ten cities, and no other of these ten has
  its latitude, the longitude sentence names each of the ten and the two poles
  once, in the order of \<open>sort_northerly\<close>, the reference city last.
\<close>

theorem longitude_text_names_top_cities:
  assumes "valid_catalog data"
    and "top_by_population (same_longitude data (longitude c)) = Some best"
    and "c \<in> set best" and "\<forall>d\<in>set best. latitude d = latitude c \<longrightarrow> d = c"
    and "length best = NUM_CITIES"
  shows "\<exists>r. sort_northerly best (latitude c) (longitude c) = Some r \<and>
    mset r = mset best + {#NORTH_POLE, SOUTH_POLE#} \<and> last r = c \<and>
    longitude_text data c =
      Some (''If you fly along this longitude starting north, you will look down on ''
            @ join '', '' (map display_city r) @ ''.'')"
proof -
  have sub: "set best \<subseteq> set data"
    using top_by_population_set [OF assms(2)] same_longitude_subset by blast
  note keys = valid_catalog_keys [OF assms(1) sub]
  from keys(1) assms(3) have phi: "latitude c = Num (lat c)" by (rule no_nan_key_Num)
  have south: "filter (\<lambda>d. \<not> lat c < lat d) (same_sorted (longitude c) best) \<noteq> [] \<and>
      last (filter (\<lambda>d. \<not> lat c < lat d) (same_sorted (longitude c) best)) = c"
    by (rule south_ends_with_reference [OF keys(1) assms(3) phi refl assms(4)])
  define r where "r = filter (\<lambda>d. lat c < lat d) (same_sorted (longitude c) best) @ [NORTH_POLE] @
      opp_sorted (longitude c) best @ [SOUTH_POLE] @
      filter (\<lambda>d. \<not> lat c < lat d) (same_sorted (longitude c) best)"
  have r: "sort_northerly best (latitude c) (longitude c) = Some r"
    unfolding r_def by (subst phi) (rule sort_northerly_Num [OF keys(1)])
  have last: "last r = c" using south by (simp add: r_def)
  have ms: "mset r = mset best + {#NORTH_POLE, SOUTH_POLE#}" by (rule sort_northerly_mset [OF r])
  then have "size (mset r) = size (mset best) + 2" by simp
  then have "length r = length best + 2" by simp
  with assms(5) have len: "length r = Suc NUM_CITIES_LONGITUDE"
    by (simp add: NUM_CITIES_def NUM_CITIES_LONGITUDE_def)
  have "join '', '' (map display_city (take NUM_CITIES_LONGITUDE r)) @ '', '' @ display_city c =
      join '', '' (map display_city r)"
    by (rule sentence_names_all [OF len last]) (simp add: NUM_CITIES_LONGITUDE_def)
  with assms(2) r ms last show ?thesis
    by (simp add: longitude_text_def longitude_cities_def)
qed

text \<open>
  C7: when the latitude band of the reference city holds at most nine cities,
  the latitude sentence names the reference city twice at its end: the nine
  names it keeps already include the reference, which is then appended again.
  The comment of \<open>NUM_CITIES_LATITUDE\<close> promises the city "exactly once and
  last".
\<close>

theorem latitude_text_repeats_reference:
  assumes "valid_catalog data" and "c \<in> set data"
    and "\<forall>d\<in>set data. longitude d = longitude c \<longrightarrow> d = c"
    and "length (same_latitude data (latitude c)) \<le> NUM_CITIES_LATITUDE"
  shows "\<exists>pre. latitude_text data c = Some (pre @ display_city c @ '', '' @ display_city c @ ''.'')"
proof -
  let ?B = "same_latitude data (latitude c)"
  have keysB: "no_nan_key population ?B"
    using valid_catalog_keys [OF assms(1) same_latitude_subset] by blast
  from assms(1,2) have "latitude c = Num (f64_val (latitude c))"
    by (simp add: valid_catalog_def not_nan_Num)
  with assms(2) have cB: "c \<in> set ?B" by (rule city_in_same_latitude)
  from assms(4) have "length ?B \<le> NUM_CITIES"
    by (simp add: NUM_CITIES_def NUM_CITIES_LATITUDE_def)
  with keysB obtain best where best: "top_by_population ?B = Some best" and msb: "mset best = mset ?B"
    using top_by_population_small by blast
  from msb have setb: "set best = set ?B" by (metis set_mset_mset)
  have sub: "set best \<subseteq> set data" using setb same_latitude_subset by blast
  note keys = valid_catalog_keys [OF assms(1) sub]
  from cB setb have c_in: "c \<in> set best" by simp
  from keys(2) c_in have l: "longitude c = Num (lon c)" by (rule no_nan_key_Num)
  have uniq: "\<forall>d\<in>set best. longitude d = longitude c \<longrightarrow> d = c" using assms(3) sub by blast
  have west: "filter (\<lambda>d. lon d \<le> lon c) (sort_key lon best) \<noteq> [] \<and>
      last (filter (\<lambda>d. lon d \<le> lon c) (sort_key lon best)) = c"
    by (rule west_ends_with_reference [OF keys(2) c_in l uniq])
  define r where "r = filter (\<lambda>d. \<not> lon d \<le> lon c) (sort_key lon best) @
      filter (\<lambda>d. lon d \<le> lon c) (sort_key lon best)"
  have r: "sort_easterly best (longitude c) = Some r"
    unfolding r_def by (subst l) (rule sort_easterly_Num [OF keys(2)])
  have last: "last r = c" and ne: "r \<noteq> []" using west by (simp_all add: r_def)
  have "length r = length ?B" using sort_easterly_mset [OF r] msb by (metis size_mset)
  with assms(4) have "take NUM_CITIES_LATITUDE r = r" by simp
  with best r have sentence: "latitude_text data c =
      Some (''If you fly along this latitude in an easterly direction, you will look down on ''
            @ join '', '' (map display_city r) @ '', '' @ display_city c @ ''.'')"
    by (simp add: latitude_text_def latitude_cities_def)
  obtain pre where
    "''If you fly along this latitude in an easterly direction, you will look down on ''
       @ join '', '' (map display_city r) @ '', '' @ display_city c @ ''.'' =
     pre @ display_city c @ '', '' @ display_city c @ ''.''"
    using sentence_repeats_last [OF ne last] by blast
  with sentence show ?thesis by auto
qed

text \<open>
  C8: when the meridian band of the reference city holds at most nine cities,
  the longitude sentence names the reference city twice at its end: with the two
  poles the route has at most eleven stops, all of them kept, the reference
  among them, and the reference is appended again.
\<close>

theorem longitude_text_repeats_reference:
  assumes "valid_catalog data" and "c \<in> set data"
    and "\<forall>d\<in>set data. latitude d = latitude c \<longrightarrow> d = c"
    and "length (same_longitude data (longitude c)) \<le> NUM_CITIES_LATITUDE"
  shows "\<exists>pre. longitude_text data c = Some (pre @ display_city c @ '', '' @ display_city c @ ''.'')"
proof -
  let ?B = "same_longitude data (longitude c)"
  have keysB: "no_nan_key population ?B"
    using valid_catalog_keys [OF assms(1) same_longitude_subset] by blast
  from assms(1,2) have "longitude c = Num (f64_val (longitude c))"
    by (simp add: valid_catalog_def not_nan_Num)
  with assms(2) have cB: "c \<in> set ?B" by (rule city_in_same_longitude)
  from assms(4) have "length ?B \<le> NUM_CITIES"
    by (simp add: NUM_CITIES_def NUM_CITIES_LATITUDE_def)
  with keysB obtain best where best: "top_by_population ?B = Some best" and msb: "mset best = mset ?B"
    using top_by_population_small by blast
  from msb have setb: "set best = set ?B" by (metis set_mset_mset)
  have sub: "set best \<subseteq> set data" using setb same_longitude_subset by blast
  note keys = valid_catalog_keys [OF assms(1) sub]
  from cB setb have c_in: "c \<in> set best" by simp
  from keys(1) c_in have phi: "latitude c = Num (lat c)" by (rule no_nan_key_Num)
  have uniq: "\<forall>d\<in>set best. latitude d = latitude c \<longrightarrow> d = c" using assms(3) sub by blast
  have south: "filter (\<lambda>d. \<not> lat c < lat d) (same_sorted (longitude c) best) \<noteq> [] \<and>
      last (filter (\<lambda>d. \<not> lat c < lat d) (same_sorted (longitude c) best)) = c"
    by (rule south_ends_with_reference [OF keys(1) c_in phi refl uniq])
  define r where "r = filter (\<lambda>d. lat c < lat d) (same_sorted (longitude c) best) @ [NORTH_POLE] @
      opp_sorted (longitude c) best @ [SOUTH_POLE] @
      filter (\<lambda>d. \<not> lat c < lat d) (same_sorted (longitude c) best)"
  have r: "sort_northerly best (latitude c) (longitude c) = Some r"
    unfolding r_def by (subst phi) (rule sort_northerly_Num [OF keys(1)])
  have last: "last r = c" and ne: "r \<noteq> []" using south by (simp_all add: r_def)
  have "size (mset r) = size (mset best) + 2" using sort_northerly_mset [OF r] by simp
  then have "length r = length ?B + 2" using msb by (metis size_mset)
  with assms(4) have "take NUM_CITIES_LONGITUDE r = r"
    by (simp add: NUM_CITIES_LATITUDE_def NUM_CITIES_LONGITUDE_def)
  with best r have sentence: "longitude_text data c =
      Some (''If you fly along this longitude starting north, you will look down on ''
            @ join '', '' (map display_city r) @ '', '' @ display_city c @ ''.'')"
    by (simp add: longitude_text_def longitude_cities_def)
  obtain pre where
    "''If you fly along this longitude starting north, you will look down on ''
       @ join '', '' (map display_city r) @ '', '' @ display_city c @ ''.'' =
     pre @ display_city c @ '', '' @ display_city c @ ''.''"
    using sentence_repeats_last [OF ne last] by blast
  with sentence show ?thesis by auto
qed

text \<open>
  C31: when the reference city is not among the ten most populous cities of a
  full latitude band, the sentence still drops the last city of the route, as
  if it were the reference: it names the first nine cities of the route and
  then the reference city, which is not on the route, and the tenth city of the
  route is never named.
\<close>

theorem latitude_text_drops_route_end:
  assumes "top_by_population (same_latitude data (latitude c)) = Some best"
    and "sort_easterly best (longitude c) = Some r"
    and "length best = NUM_CITIES" and "c \<notin> set best"
  shows "latitude_text data c =
      Some (''If you fly along this latitude in an easterly direction, you will look down on ''
            @ join '', '' (map display_city (butlast r)) @ '', '' @ display_city c @ ''.'')
    \<and> last r \<in> set best \<and> last r \<noteq> c"
proof -
  have ms: "mset r = mset best" by (rule sort_easterly_mset [OF assms(2)])
  then have "length r = length best" by (metis size_mset)
  with assms(3) have len: "length r = Suc NUM_CITIES_LATITUDE"
    by (simp add: NUM_CITIES_def NUM_CITIES_LATITUDE_def)
  then have "r \<noteq> []" by auto
  then have "last r \<in> set best" using ms by (metis last_in_set set_mset_mset)
  moreover from len have "take NUM_CITIES_LATITUDE r = butlast r" by (rule take_butlast_last)
  ultimately show ?thesis
    using assms(1,2,4) by (auto simp: latitude_text_def latitude_cities_def)
qed

section \<open>Evaluating the concrete catalogs\<close>

lemmas band_defs = sample_defs NORTH_POLE_def SOUTH_POLE_def no_nan_key_def

lemma sample_csv_loads: "snd (load_data sample_csv) = Inr [pittsburgh]"
  by (simp add: load_data_def sample_csv_def city_of_record_def pittsburgh_def)

lemma loaded_process_reachable: "reachable sample_csv loaded_process"
proof -
  have "snd (step sample_csv init_process (RandomLocation 0)) = loaded_process"
    by (simp add: step_state force_DATA_def init_process_def loaded_process_def split_beta
                  sample_csv_loads)
  with reachable.call [OF reachable.start, of sample_csv "RandomLocation 0"] show ?thesis by simp
qed

lemma ring_eq: "ring = [mk_city ''A'' 10 (-90) 1, mk_city ''B'' 10 (-70) 2, mk_city ''C'' 10 (-50) 3,
   mk_city ''D'' 10 (-30) 4, mk_city ''E'' 10 (-10) 5, mk_city ''F'' 10 10 6, mk_city ''G'' 10 30 7,
   mk_city ''H'' 10 50 8, mk_city ''I'' 10 70 9, mk_city ''J'' 10 90 10]"
  by (simp add: ring_def upt_rec char_of_eval)

lemma meridian_eq: "meridian = [mk_city ''K'' (-81) 20 1, mk_city ''L'' (-63) 20 2, mk_city ''M'' (-45) 20 3,
   mk_city ''N'' (-27) 20 4, mk_city ''O'' (-9) 20 5, mk_city ''P'' 9 20 6, mk_city ''Q'' 27 20 7,
   mk_city ''R'' 45 20 8, mk_city ''S'' 63 20 9, mk_city ''T'' 81 20 10]"
  by (simp add: meridian_def upt_rec char_of_eval)

section \<open>Witnesses\<close>

theorem sort_easterly_reference_last_witness:
  "\<exists>r. sort_easterly [pittsburgh, new_york, madrid] (Num (-79.99998539)) = Some r \<and> last r = pittsburgh"
  by (rule sort_easterly_reference_last) (simp_all add: sample_defs no_nan_key_def)

theorem sort_easterly_rotation_witness:
  "sort_easterly [pittsburgh, new_york, madrid] (Num (-79.99998539)) =
     Some (rotate (length (filter (\<lambda>c. lon c \<le> -79.99998539) [pittsburgh, new_york, madrid]))
                  (sort_key lon [pittsburgh, new_york, madrid]))"
  by (rule sort_easterly_rotation) (simp add: band_defs)

theorem sort_easterly_route_witness:
  "\<exists>r. sort_easterly [pittsburgh, new_york, madrid] (Num (-79.99998539)) = Some r
     \<and> mset r = mset [pittsburgh, new_york, madrid]
     \<and> sorted (map (east_offset (-79.99998539)) r)
     \<and> (\<forall>c\<in>set r. 0 < east_offset (-79.99998539) c \<and> east_offset (-79.99998539) c \<le> 360)"
  by (rule sort_easterly_route) (simp_all add: band_defs)

theorem sort_northerly_poles_witness:
  "\<exists>n m s. [NORTH_POLE, padang, SOUTH_POLE, miami, pittsburgh] = n @ [NORTH_POLE] @ m @ [SOUTH_POLE] @ s
    \<and> mset (n @ s) = mset (filter (same_side (Num (-79.99998539))) [pittsburgh, miami, padang])
    \<and> mset m = mset (filter (Not \<circ> same_side (Num (-79.99998539))) [pittsburgh, miami, padang])
    \<and> (\<forall>c\<in>set n. f64_lt (Num 40.4299986) (latitude c)) \<and> (\<forall>c\<in>set s. \<not> f64_lt (Num 40.4299986) (latitude c))
    \<and> sorted (map lat n) \<and> sorted (map lat s) \<and> sorted (map (\<lambda>c. - lat c) m)"
proof (rule sort_northerly_poles)
  show "sort_northerly [pittsburgh, miami, padang] (Num 40.4299986) (Num (-79.99998539)) =
      Some [NORTH_POLE, padang, SOUTH_POLE, miami, pittsburgh]"
    by (simp add: sort_northerly_def same_side_def band_defs cmp_real_def)
qed

theorem same_latitude_window_witness:
  "subseq (same_latitude sample (Num 40)) sample \<and> pittsburgh \<in> set (same_latitude sample (Num 40))
   \<and> (\<exists>x. latitude madrid = Num x \<and> \<bar>x - 40\<bar> < 1 / 2 + 1 / 10 ^ 9)"
proof -
  have w: "\<bar>40::real\<bar> \<le> 180" by simp
  have p: "pittsburgh \<in> set sample" "latitude pittsburgh = Num 40.4299986"
    "\<bar>40.4299986 - 40\<bar> < (1::real) / 2 - 1 / 10 ^ 9"
    by (simp_all add: sample_def pittsburgh_def)
  have m: "madrid \<in> set (same_latitude sample (Num 40))"
    by (simp add: sample_defs same_latitude_def LATITUDE_TOLERANCE_def)
  from same_latitude_window [OF w, of sample] p m show ?thesis by blast
qed

theorem same_longitude_window_witness:
  "subseq (same_longitude sample (Num (-80))) sample \<and> padang \<in> set (same_longitude sample (Num (-80)))
   \<and> (\<exists>x. longitude miami = Num x
        \<and> (\<bar>x - -80\<bar> < 1 / 2 + 1 / 10 ^ 9
           \<or> \<bar>x - (if 0 < (-80::real) then -80 - 180 else -80 + 180)\<bar> < 1 / 2 + 1 / 10 ^ 9))"
proof -
  have w: "\<bar>-80::real\<bar> \<le> 180" by simp
  have p: "padang \<in> set sample" "longitude padang = Num 100.3600069"
    "\<bar>(100.3600069::real) - (if 0 < (-80::real) then -80 - 180 else -80 + 180)\<bar> < 1 / 2 - 1 / 10 ^ 9"
    by (simp_all add: sample_def padang_def mk_city_def)
  have m: "miami \<in> set (same_longitude sample (Num (-80)))"
    by (simp add: sample_defs same_longitude_def LONGITUDE_TOLERANCE_def opposite_longitude_def)
  from same_longitude_window [OF w, of sample] p m show ?thesis by blast
qed

theorem sort_northerly_reference_last_witness:
  "\<exists>r. sort_northerly [pittsburgh, miami, padang] (Num 40.4299986) (Num (-79.99998539)) = Some r
     \<and> last r = pittsburgh"
  by (rule sort_northerly_reference_last) (simp_all add: band_defs)

theorem sort_northerly_route_witness:
  "\<exists>r. sort_northerly [pittsburgh, miami, padang] (Num 40.4299986) (Num (-79.99998539)) = Some r
     \<and> mset r = mset [pittsburgh, miami, padang] + {#NORTH_POLE, SOUTH_POLE#}
     \<and> sorted (map (north_offset 40.4299986 (Num (-79.99998539))) r)"
  by (rule sort_northerly_route) (simp_all add: band_defs)

theorem bands_contain_city_witness:
  "pittsburgh \<in> set sample \<and> \<not> is_nan (latitude pittsburgh) \<and> \<not> is_nan (longitude pittsburgh)
   \<and> pittsburgh \<in> set (same_latitude sample (latitude pittsburgh))
   \<and> pittsburgh \<in> set (same_longitude sample (longitude pittsburgh))"
proof -
  have facts: "pittsburgh \<in> set sample" "\<not> is_nan (latitude pittsburgh)" "\<not> is_nan (longitude pittsburgh)"
    by (simp_all add: sample_def pittsburgh_def)
  with bands_contain_city [of pittsburgh sample] show ?thesis by simp
qed

theorem top_by_population_correct_witness:
  "\<exists>r. top_by_population sample = Some r
    \<and> length r = min NUM_CITIES (length sample)
    \<and> sorted_wrt (\<lambda>a b. pop b \<le> pop a) r
    \<and> mset r \<subseteq># mset sample
    \<and> (\<forall>c\<in>set r. \<forall>d\<in>#mset sample - mset r. pop d \<le> pop c)"
  by (rule top_by_population_correct) (simp add: band_defs)

theorem top_by_population_panics_iff_witness:
  "top_by_population [pittsburgh, nowhere] = None"
  using top_by_population_panics_iff [of "[pittsburgh, nowhere]"] by (simp add: nowhere_def)

theorem top_by_population_stable_witness:
  "Sublist.prefix (filter (\<lambda>c. pop c = 5695000) [new_york, miami, madrid, pittsburgh, padang])
                  (filter (\<lambda>c. pop c = 5695000) sample)"
proof (rule top_by_population_stable)
  show "no_nan_key population sample" by (simp add: band_defs)
  show "top_by_population sample = Some [new_york, miami, madrid, pittsburgh, padang]"
    by (simp add: top_by_population_def NUM_CITIES_def band_defs cmp_real_def)
qed

theorem reachable_catalog_loaded_once_witness:
  "snd (load_data sample_csv) = Inr [pittsburgh] \<and> [pittsburgh] \<noteq> [] \<and>
   stdout loaded_process = fst (load_data sample_csv)"
  by (rule reachable_catalog_loaded_once [OF loaded_process_reachable]) (simp add: loaded_process_def)

theorem random_location_picks_catalog_city_witness:
  "3 mod length [pittsburgh] < length [pittsburgh] \<and>
   fst (step sample_csv loaded_process (RandomLocation 3)) =
     location_text [pittsburgh] ([pittsburgh] ! (3 mod length [pittsburgh]))"
  by (rule random_location_picks_catalog_city [OF loaded_process_reachable]) (simp add: loaded_process_def)

theorem load_failure_every_call_panics_witness:
  "fst (step (Inl ''No such file or directory'') init_process (LocationText pittsburgh)) = None"
  by (rule load_failure_every_call_panics [OF reachable.start]) (simp add: load_data_def)

theorem sort_easterly_panics_iff_witness:
  "sort_easterly [pittsburgh, lost] (Num 0) = None"
  using sort_easterly_panics_iff [of "[pittsburgh, lost]" "Num 0"] by (simp add: lost_def)

theorem sort_northerly_panics_iff_witness:
  "sort_northerly [pittsburgh, nowhere] (Num 40.4299986) (Num (-79.99998539)) = None"
  using sort_northerly_panics_iff [of "[pittsburgh, nowhere]" "Num 40.4299986" "Num (-79.99998539)"]
  by (simp add: nowhere_def same_side_def pittsburgh_def)

theorem latitude_text_repeats_reference_witness:
  "\<exists>pre. latitude_text sample pittsburgh =
     Some (pre @ display_city pittsburgh @ '', '' @ display_city pittsburgh @ ''.'')"
  by (rule latitude_text_repeats_reference)
     (simp_all add: valid_catalog_def band_defs same_latitude_def LATITUDE_TOLERANCE_def NUM_CITIES_LATITUDE_def)

theorem longitude_text_repeats_reference_witness:
  "\<exists>pre. longitude_text sample pittsburgh =
     Some (pre @ display_city pittsburgh @ '', '' @ display_city pittsburgh @ ''.'')"
  by (rule longitude_text_repeats_reference)
     (simp_all add: valid_catalog_def band_defs same_longitude_def LONGITUDE_TOLERANCE_def
        opposite_longitude_def NUM_CITIES_LATITUDE_def)

theorem latitude_text_names_top_cities_witness:
  "\<exists>r. sort_easterly (rev ring) (longitude (hd ring)) = Some r \<and> mset r = mset (rev ring) \<and> last r = hd ring \<and>
    latitude_text ring (hd ring) =
      Some (''If you fly along this latitude in an easterly direction, you will look down on ''
            @ join '', '' (map display_city r) @ ''.'')"
proof (rule latitude_text_names_top_cities)
  show "valid_catalog ring" by (simp add: valid_catalog_def ring_eq mk_city_def)
  show "top_by_population (same_latitude ring (latitude (hd ring))) = Some (rev ring)"
    by (simp add: ring_eq mk_city_def top_by_population_def same_latitude_def LATITUDE_TOLERANCE_def
                  NUM_CITIES_def cmp_real_def)
  show "hd ring \<in> set (rev ring)" by (simp add: ring_eq)
  show "\<forall>d\<in>set (rev ring). longitude d = longitude (hd ring) \<longrightarrow> d = hd ring"
    by (simp add: ring_eq mk_city_def)
  show "length (rev ring) = NUM_CITIES" by (simp add: ring_eq NUM_CITIES_def)
qed

theorem longitude_text_names_top_cities_witness:
  "\<exists>r. sort_northerly (rev meridian) (latitude (hd meridian)) (longitude (hd meridian)) = Some r \<and>
    mset r = mset (rev meridian) + {#NORTH_POLE, SOUTH_POLE#} \<and> last r = hd meridian \<and>
    longitude_text meridian (hd meridian) =
      Some (''If you fly along this longitude starting north, you will look down on ''
            @ join '', '' (map display_city r) @ ''.'')"
proof (rule longitude_text_names_top_cities)
  show "valid_catalog meridian" by (simp add: valid_catalog_def meridian_eq mk_city_def)
  show "top_by_population (same_longitude meridian (longitude (hd meridian))) = Some (rev meridian)"
    by (simp add: meridian_eq mk_city_def top_by_population_def same_longitude_def LONGITUDE_TOLERANCE_def
                  opposite_longitude_def NUM_CITIES_def cmp_real_def)
  show "hd meridian \<in> set (rev meridian)" by (simp add: meridian_eq)
  show "\<forall>d\<in>set (rev meridian). latitude d = latitude (hd meridian) \<longrightarrow> d = hd meridian"
    by (simp add: meridian_eq mk_city_def)
  show "length (rev meridian) = NUM_CITIES" by (simp add: meridian_eq NUM_CITIES_def)
qed

theorem toot_missing_variable_panics_witness:
  "main_v1 [''CLIENT_ID'' \<mapsto> ''id''] None sample_csv 0 ok_service =
     ([Line BANNER_CONFIGURED], Inl (''must have `'' @ ''BASE'' @ ''` definded''))
   \<and> main_v2 [''CLIENT_ID'' \<mapsto> ''id''] None sample_csv 0 ok_service =
     ([Line BANNER_CONFIGURED], Inl (''must have `'' @ ''BASE'' @ ''` definded''))"
proof -
  have h1: "dotenv [''CLIENT_ID'' \<mapsto> ''id''] None ''CLIENT_ID'' \<noteq> None"
    by (simp add: dotenv_def)
  have h2: "find (\<lambda>k. dotenv [''CLIENT_ID'' \<mapsto> ''id''] None k = None)
      [''BASE'', ''CLIENT_SECRET'', ''TOKEN''] = Some ''BASE''"
    by (simp add: dotenv_def)
  from toot_missing_variable_panics [OF h1 h2] show ?thesis .
qed

theorem configured_versions_agree_witness:
  "posts (fst (main_v2 configured_env None sample_csv 0 ok_service)) =
     posts (fst (main_v1 configured_env None sample_csv 0 ok_service))
   \<and> snd (main_v2 configured_env None sample_csv 0 ok_service) =
     snd (main_v1 configured_env None sample_csv 0 ok_service)"
proof -
  have h1: "dotenv configured_env None ''CLIENT_ID'' \<noteq> None"
    by (simp add: dotenv_def configured_env_def)
  have h2: "\<forall>d. from_data ok_service d = Inr ()"
    by (simp add: ok_service_def)
  from configured_versions_agree [OF h1 h2] show ?thesis .
qed

theorem register_v1_sends_line_break_witness:
  "posts (fst (main_v1 register_env None sample_csv 0 strict_service)) = []
   \<and> snd (main_v1 register_env None sample_csv 0 strict_service) =
     Inl ''Creating access token failed: invalid_grant''
   \<and> DumpData token_data \<in> set (fst (main_v2 register_env None sample_csv 0 strict_service))"
proof -
  have svc: "registration_new strict_service ''https://mastodon.social'' = Inr ()"
    "register strict_service = Inr ()"
    "authorise strict_service = Inr ''https://mastodon.social/oauth/authorize''"
    "read_line strict_service = Inr (''abc'' @ ''\<newline>'')"
    "create_access_token strict_service =
       (\<lambda>c. if c = ''abc'' then Inr token_data else Inl ''invalid_grant'')"
    by (simp_all add: strict_service_def ok_service_def)
  have env: "dotenv register_env None ''CLIENT_ID'' = None"
    "dotenv register_env None ''BASE'' = Some ''https://mastodon.social''"
    by (simp_all add: dotenv_def register_env_def)
  have "trimmed ''abc''" by (simp add: trimmed_def is_whitespace_def)
  from register_v1_sends_line_break [OF env svc(1-4) this svc(5)] show ?thesis .
qed

theorem lazy_DATA_refines_eager_witness:
  "fst (step sample_csv loaded_process (RandomLocation 0)) = eager_call sample_csv (RandomLocation 0)"
  using loaded_process_reachable by (rule lazy_DATA_refines_eager)

theorem latitude_text_drops_route_end_witness:
  "latitude_text (ring @ [outsider]) outsider =
      Some (''If you fly along this latitude in an easterly direction, you will look down on ''
            @ join '', '' (map display_city (butlast ring)) @ '', '' @ display_city outsider @ ''.'')
    \<and> last ring \<in> set (rev ring) \<and> last ring \<noteq> outsider"
proof (rule latitude_text_drops_route_end)
  show "top_by_population (same_latitude (ring @ [outsider]) (latitude outsider)) = Some (rev ring)"
    by (simp add: ring_eq outsider_def mk_city_def top_by_population_def same_latitude_def
                  LATITUDE_TOLERANCE_def NUM_CITIES_def cmp_real_def)
  show "sort_easterly (rev ring) (longitude outsider) = Some ring"
    by (simp add: ring_eq outsider_def mk_city_def sort_easterly_def cmp_real_def)
  show "length (rev ring) = NUM_CITIES" by (simp add: ring_eq NUM_CITIES_def)
  show "outsider \<notin> set (rev ring)" by (simp add: ring_eq outsider_def mk_city_def)
qed

theorem sort_easterly_stable_witness:
  "filter (\<lambda>c. lon c = 10) [mk_city ''A'' 1 10 2, mk_city ''B'' 2 10 1, mk_city ''C'' 3 (-50) 3]
     = filter (\<lambda>c. lon c = 10) twins"
proof -
  have h1: "no_nan_key longitude twins" by (simp add: twins_def mk_city_def no_nan_key_def)
  have h2: "sort_easterly twins (Num 0) =
      Some [mk_city ''A'' 1 10 2, mk_city ''B'' 2 10 1, mk_city ''C'' 3 (-50) 3]"
    by (simp add: twins_def mk_city_def sort_easterly_def cmp_real_def)
  from sort_easterly_stable [OF h1 h2, of 10] show ?thesis .
qed

end
